theory Spec2Isabelle
  imports Complex_Main "HOL-Library.Multiset"
begin

section \<open>The portfolio client of \<open>crypto_portfolio.py\<close> (class \<open>BinanceManager\<close>)\<close>

text \<open>
  The embedding follows \<open>BinanceManager\<close>: \<open>_get_current_price\<close>, \<open>_get_spot_data\<close>,
  \<open>_get_all_simple_earn_positions\<close>, \<open>_get_simple_earn_asset_positions\<close>,
  \<open>_get_earn_data\<close> and \<open>get_portfolio_data\<close>. Python names lose their leading underscore.

  Conventions.
  \<^item> A Python \<open>float\<close> is a \<open>real\<close>: rounding, infinities and NaN are not modelled. The
    properties below are about control flow, caching, retrying, de-duplication and
    ordering, none of which depends on how a product is rounded.
  \<^item> The exchange, the HTTP transport and the clock are oracles collected in an
    environment \<open>env\<close>. The reply to a network call depends on the number of network
    calls made before it (the length of the call log), so an endpoint may answer
    differently every time it is asked. A reading of \<open>time.time()\<close> depends on the
    number of readings taken before it.
  \<^item> The mutable state of the manager and of the world is the record \<open>world\<close>: the
    price cache \<open>self._price_cache\<close>, the number of clock readings, and the log of
    network calls. Every operation takes a world and returns the new one.
  \<^item> An exception is a value: a loop body that raises ends the loop with \<open>Raised\<close>,
    and each \<open>try/except\<close> of the source is the \<open>case\<close> that receives it.
  \<^item> Logging and \<open>time.sleep\<close> have no effect on any value and are left out.
\<close>

subsection \<open>Data\<close>

text \<open>The dictionary built at lines 190-202, 321-333 and 496-508.\<close>

record holding =
  asset :: string
  quantity :: real
  avg_price :: real
  current_price :: real
  current_value :: real
  total_invested :: real
  pnl_percentage :: real
  pnl_euro :: real
  source :: string
  type :: string
  apr :: real

text \<open>The two entries of \<open>endpoints\<close> (lines 267-270 and 455-458).\<close>

datatype product_type = FLEXIBLE | LOCKED

text \<open>\<open>product_type.title()\<close>.\<close>

fun title :: "product_type \<Rightarrow> string" where
  "title FLEXIBLE = ''Flexible''"
| "title LOCKED = ''Locked''"

text \<open>
  One entry of \<open>account['balances']\<close>. A field is \<open>None\<close> when reading it raises:
  the key is missing, or \<open>float\<close> rejects the text.
\<close>

record balance =
  bal_asset :: "string option"
  free :: "real option"
  locked :: "real option"

text \<open>
  One entry of \<open>data['rows']\<close>. \<open>row_asset\<close> and \<open>totalAmount\<close> are \<open>None\<close> when
  reading them raises. \<open>latestAnnualPercentageRate\<close> is read with
  \<open>pos.get(..., 0)\<close>: \<open>None\<close> is the absent key (the default 0 is used),
  \<open>Some None\<close> a value that \<open>float\<close> rejects, \<open>Some (Some r)\<close> the rate \<open>r\<close>.
\<close>

record earn_row =
  row_asset :: "string option"
  totalAmount :: "real option"
  latestAnnualPercentageRate :: "real option option"

text \<open>
  The outcome of \<open>response.json()\<close> and of reading \<open>rows\<close> on a 200 reply.
  \<open>JSONDecodeError\<close>: the body is not JSON and \<open>response.json()\<close> raises the
  library's \<open>requests.exceptions.JSONDecodeError\<close>, which is a
  \<open>RequestException\<close> (requests 2.27 and later). \<open>BadBody\<close>: decoding, or reading
  \<open>rows\<close> from the decoded value, raises an exception that is not a
  \<open>RequestException\<close> (a decoded value that is no dictionary, or the decoder of an
  older library). Otherwise the rows, the empty list standing for an absent or empty
  \<open>rows\<close> as well.
\<close>

datatype body = JSONDecodeError | BadBody | Json "earn_row list"

text \<open>
  The outcome of one \<open>requests.get\<close>: \<open>RequestException\<close> when the call itself
  raises (timeout, connection reset), otherwise the reply with its status code and
  what its body decodes to.
\<close>

datatype http_result = RequestException | Response int body

text \<open>The network calls the manager makes; the timestamp and the signature that
  accompany a position request are functions of the clock reading and the secret.\<close>

datatype request =
    GetAccount
  | GetSymbolTicker string
  | GetPosition product_type "string option"

text \<open>
  The oracles. \<open>clock k\<close> is the \<open>k\<close>-th reading of \<open>time.time()\<close>. The first
  argument of the other three is the number of network calls made so far.
  \<open>get_account\<close> is \<open>None\<close> when \<open>self.client.get_account()\<close> raises or the reply
  has no \<open>balances\<close>. \<open>get_symbol_ticker\<close> is \<open>None\<close> when the client raises or
  \<open>float(ticker['price'])\<close> does.
\<close>

record env =
  clock :: "nat \<Rightarrow> real"
  get_account :: "nat \<Rightarrow> balance list option"
  get_symbol_ticker :: "nat \<Rightarrow> string \<Rightarrow> real option"
  requests_get :: "nat \<Rightarrow> product_type \<Rightarrow> string option \<Rightarrow> http_result"

record world =
  price_cache :: "string \<rightharpoonup> (real \<times> real)"
  clock_reads :: nat
  net_log :: "request list"

text \<open>How a loop body ended.\<close>

datatype completion = Completed | Raised

subsection \<open>The environment's operations\<close>

definition time_time :: "env \<Rightarrow> world \<Rightarrow> real \<times> world" where
  "time_time e w = (clock e (clock_reads w), w\<lparr>clock_reads := Suc (clock_reads w)\<rparr>)"

definition call_get_symbol_ticker :: "env \<Rightarrow> world \<Rightarrow> string \<Rightarrow> real option \<times> world" where
  "call_get_symbol_ticker e w symbol =
     (get_symbol_ticker e (length (net_log w)) symbol,
      w\<lparr>net_log := net_log w @ [GetSymbolTicker symbol]\<rparr>)"

definition call_get_account :: "env \<Rightarrow> world \<Rightarrow> balance list option \<times> world" where
  "call_get_account e w =
     (get_account e (length (net_log w)), w\<lparr>net_log := net_log w @ [GetAccount]\<rparr>)"

definition call_requests_get ::
  "env \<Rightarrow> world \<Rightarrow> product_type \<Rightarrow> string option \<Rightarrow> http_result \<times> world" where
  "call_requests_get e w product a =
     (requests_get e (length (net_log w)) product a,
      w\<lparr>net_log := net_log w @ [GetPosition product a]\<rparr>)"

subsection \<open>\<open>_get_current_price\<close> (lines 535-576)\<close>

text \<open>Lines 546-549: the cached price when the entry is younger than 300 seconds.\<close>

definition cached_price :: "(string \<rightharpoonup> (real \<times> real)) \<Rightarrow> string \<Rightarrow> real \<Rightarrow> real option" where
  "cached_price cache a current_time =
     (case cache a of
        None \<Rightarrow> None
      | Some (cp, cached_time) \<Rightarrow>
          if current_time - cached_time < 300 then Some cp else None)"

text \<open>Lines 552-568: the direct pair, then the two hops through BTC. \<open>None\<close> is the
  \<open>return 0.0\<close> of line 568.\<close>

definition fetch_price :: "env \<Rightarrow> world \<Rightarrow> string \<Rightarrow> real option \<times> world" where
  "fetch_price e w a =
     (case call_get_symbol_ticker e w (a @ ''USDT'') of
        (Some price, w1) \<Rightarrow> (Some price, w1)
      | (None, w1) \<Rightarrow>
          (case call_get_symbol_ticker e w1 (a @ ''BTC'') of
             (None, w2) \<Rightarrow> (None, w2)
           | (Some btc_price, w2) \<Rightarrow>
               (case call_get_symbol_ticker e w2 ''BTCUSDT'' of
                  (None, w3) \<Rightarrow> (None, w3)
                | (Some btc_usdt, w3) \<Rightarrow> (Some (btc_price * btc_usdt), w3))))"

definition get_current_price :: "env \<Rightarrow> world \<Rightarrow> string \<Rightarrow> real \<times> world" where
  "get_current_price e w a =
     (case time_time e w of
        (current_time, w0) \<Rightarrow>
          (case cached_price (price_cache w0) a current_time of
             Some cp \<Rightarrow> (cp, w0)
           | None \<Rightarrow>
               (case fetch_price e w0 a of
                  (None, w1) \<Rightarrow> (0, w1)
                | (Some price, w1) \<Rightarrow>
                    (price, w1\<lparr>price_cache := (price_cache w1)(a \<mapsto> (price, current_time))\<rparr>))))"

subsection \<open>\<open>_get_spot_data\<close> (lines 161-209)\<close>

text \<open>\<open>asset.startswith('LD')\<close>.\<close>

definition startswith :: "string \<Rightarrow> string \<Rightarrow> bool" where
  "startswith s p = (take (length p) s = p)"

text \<open>The dictionary of lines 190-202.\<close>

definition spot_holding :: "string \<Rightarrow> real \<Rightarrow> real \<Rightarrow> holding" where
  "spot_holding a total_qty price =
     \<lparr>asset = a, quantity = total_qty, avg_price = 0, current_price = price,
      current_value = total_qty * price, total_invested = 0, pnl_percentage = 0,
      pnl_euro = 0, source = ''Spot'', type = ''Spot'', apr = 0\<rparr>"

text \<open>The loop of lines 168-202 over the balances still to visit, with \<open>spot_data\<close> as
  built so far.\<close>

fun spot_loop ::
  "env \<Rightarrow> balance list \<Rightarrow> holding list \<Rightarrow> world \<Rightarrow> completion \<times> holding list \<times> world" where
  "spot_loop e [] spot_data w = (Completed, spot_data, w)"
| "spot_loop e (b # bs) spot_data w =
     (case bal_asset b of
        None \<Rightarrow> (Raised, spot_data, w)
      | Some a \<Rightarrow>
          if startswith a ''LD'' then spot_loop e bs spot_data w
          else
            (case free b of
               None \<Rightarrow> (Raised, spot_data, w)
             | Some fr \<Rightarrow>
                 (case locked b of
                    None \<Rightarrow> (Raised, spot_data, w)
                  | Some lk \<Rightarrow>
                      if fr + lk > 0 then
                        (case get_current_price e w a of
                           (price, w1) \<Rightarrow>
                             if price > 0
                             then spot_loop e bs (spot_data @ [spot_holding a (fr + lk) price]) w1
                             else spot_loop e bs spot_data w1)
                      else spot_loop e bs spot_data w)))"

text \<open>The handler of lines 207-209 turns any exception into the empty list.\<close>

definition get_spot_data :: "env \<Rightarrow> world \<Rightarrow> holding list \<times> world" where
  "get_spot_data e w =
     (case call_get_account e w of
        (None, w1) \<Rightarrow> ([], w1)
      | (Some balances, w1) \<Rightarrow>
          (case spot_loop e balances [] w1 of
             (Raised, spot_data, w2) \<Rightarrow> ([], w2)
           | (Completed, spot_data, w2) \<Rightarrow> (spot_data, w2)))"

subsection \<open>\<open>_get_all_simple_earn_positions\<close> (lines 256-360)\<close>

text \<open>Python's \<open>range(n)\<close>.\<close>

definition range_py :: "nat \<Rightarrow> nat list" where
  "range_py n = [0..<n]"

text \<open>\<open>float(pos.get('latestAnnualPercentageRate', 0))\<close>; \<open>None\<close> when \<open>float\<close> raises.\<close>

fun read_rate :: "real option option \<Rightarrow> real option" where
  "read_rate None = Some 0"
| "read_rate (Some None) = None"
| "read_rate (Some (Some r)) = Some r"

text \<open>The dictionary of lines 321-333 and 496-508.\<close>

definition earn_holding :: "string \<Rightarrow> real \<Rightarrow> real \<Rightarrow> product_type \<Rightarrow> real \<Rightarrow> holding" where
  "earn_holding a amount price product rate =
     \<lparr>asset = a, quantity = amount, avg_price = 0, current_price = price,
      current_value = amount * price, total_invested = 0, pnl_percentage = 0,
      pnl_euro = 0, source = ''Simple Earn'', type = title product, apr = rate\<rparr>"

text \<open>The loop of lines 306-335 over the rows of one reply, with the local list
  \<open>positions\<close> as built so far.\<close>

fun bulk_rows ::
  "env \<Rightarrow> product_type \<Rightarrow> earn_row list \<Rightarrow> holding list \<Rightarrow> world
     \<Rightarrow> completion \<times> holding list \<times> world" where
  "bulk_rows e product [] positions w = (Completed, positions, w)"
| "bulk_rows e product (pos # rows) positions w =
     (case row_asset pos of
        None \<Rightarrow> (Raised, positions, w)
      | Some a \<Rightarrow>
          (case totalAmount pos of
             None \<Rightarrow> (Raised, positions, w)
           | Some amount \<Rightarrow>
               if amount > 0 then
                 (case get_current_price e w a of
                    (price, w1) \<Rightarrow>
                      if price > 0 then
                        (case read_rate (latestAnnualPercentageRate pos) of
                           None \<Rightarrow> (Raised, positions, w1)
                         | Some r \<Rightarrow>
                             bulk_rows e product rows
                               (positions @ [earn_holding a amount price product (r * 100)]) w1)
                      else bulk_rows e product rows positions w1)
               else bulk_rows e product rows positions w))"

text \<open>
  The retry loop of lines 275-350 over the attempts still to make, with
  \<open>all_positions\<close> as it stands. A 200 reply ends the loop (\<open>break\<close>) after
  \<open>all_positions.extend(positions)\<close>; a \<open>RequestException\<close> (raised by
  \<open>requests.get\<close> or by \<open>response.json()\<close>, both inside the \<open>try\<close> of line 276)
  or another status goes to the next attempt; any other exception leaves the loop
  for the handler of line 352, and the local \<open>positions\<close> is lost.
\<close>

fun bulk_attempts ::
  "env \<Rightarrow> product_type \<Rightarrow> nat list \<Rightarrow> holding list \<Rightarrow> world
     \<Rightarrow> completion \<times> holding list \<times> world" where
  "bulk_attempts e product [] all_positions w = (Completed, all_positions, w)"
| "bulk_attempts e product (attempt # attempts) all_positions w =
     (case time_time e w of
        (timestamp, w0) \<Rightarrow>
          (case call_requests_get e w0 product None of
             (RequestException, w1) \<Rightarrow> bulk_attempts e product attempts all_positions w1
           | (Response status_code b, w1) \<Rightarrow>
               if status_code = 200 then
                 (case b of
                    JSONDecodeError \<Rightarrow> bulk_attempts e product attempts all_positions w1
                  | BadBody \<Rightarrow> (Raised, all_positions, w1)
                  | Json rows \<Rightarrow>
                      (case bulk_rows e product rows [] w1 of
                         (Raised, positions, w2) \<Rightarrow> (Raised, all_positions, w2)
                       | (Completed, positions, w2) \<Rightarrow>
                           (Completed, all_positions @ positions, w2)))
               else bulk_attempts e product attempts all_positions w1))"

text \<open>The loop of lines 272-354 over the endpoints; the handler of line 352 goes on
  to the next endpoint.\<close>

fun bulk_endpoints ::
  "env \<Rightarrow> product_type list \<Rightarrow> holding list \<Rightarrow> world \<Rightarrow> holding list \<times> world" where
  "bulk_endpoints e [] all_positions w = (all_positions, w)"
| "bulk_endpoints e (product # products) all_positions w =
     (case bulk_attempts e product (range_py 3) all_positions w of
        (c, all_positions', w') \<Rightarrow> bulk_endpoints e products all_positions' w')"

definition get_all_simple_earn_positions :: "env \<Rightarrow> world \<Rightarrow> holding list \<times> world" where
  "get_all_simple_earn_positions e w = bulk_endpoints e [FLEXIBLE, LOCKED] [] w"

subsection \<open>\<open>_get_simple_earn_asset_positions\<close> (lines 444-529)\<close>

text \<open>The loop of lines 488-509. Here \<open>positions\<close> is the list the function returns,
  so what was appended before an exception stays.\<close>

fun asset_rows ::
  "env \<Rightarrow> string \<Rightarrow> product_type \<Rightarrow> earn_row list \<Rightarrow> holding list \<Rightarrow> world
     \<Rightarrow> completion \<times> holding list \<times> world" where
  "asset_rows e a product [] positions w = (Completed, positions, w)"
| "asset_rows e a product (pos # rows) positions w =
     (case totalAmount pos of
        None \<Rightarrow> (Raised, positions, w)
      | Some amount \<Rightarrow>
          if amount > 0 then
            (case get_current_price e w a of
               (price, w1) \<Rightarrow>
                 if price > 0 then
                   (case read_rate (latestAnnualPercentageRate pos) of
                      None \<Rightarrow> (Raised, positions, w1)
                    | Some r \<Rightarrow>
                        asset_rows e a product rows
                          (positions @ [earn_holding a amount price product (r * 100)]) w1)
                 else asset_rows e a product rows positions w1)
          else asset_rows e a product rows positions w)"

text \<open>The retry loop of lines 463-519.\<close>

fun asset_attempts ::
  "env \<Rightarrow> string \<Rightarrow> product_type \<Rightarrow> nat list \<Rightarrow> holding list \<Rightarrow> world
     \<Rightarrow> completion \<times> holding list \<times> world" where
  "asset_attempts e a product [] positions w = (Completed, positions, w)"
| "asset_attempts e a product (attempt # attempts) positions w =
     (case time_time e w of
        (timestamp, w0) \<Rightarrow>
          (case call_requests_get e w0 product (Some a) of
             (RequestException, w1) \<Rightarrow> asset_attempts e a product attempts positions w1
           | (Response status_code b, w1) \<Rightarrow>
               if status_code = 200 then
                 (case b of
                    JSONDecodeError \<Rightarrow> asset_attempts e a product attempts positions w1
                  | BadBody \<Rightarrow> (Raised, positions, w1)
                  | Json rows \<Rightarrow> asset_rows e a product rows positions w1)
               else asset_attempts e a product attempts positions w1))"

text \<open>The loop of lines 460-523 over the endpoints.\<close>

fun asset_endpoints ::
  "env \<Rightarrow> string \<Rightarrow> product_type list \<Rightarrow> holding list \<Rightarrow> world \<Rightarrow> holding list \<times> world" where
  "asset_endpoints e a [] positions w = (positions, w)"
| "asset_endpoints e a (product # products) positions w =
     (case asset_attempts e a product (range_py 2) positions w of
        (c, positions', w') \<Rightarrow> asset_endpoints e a products positions' w')"

definition get_simple_earn_asset_positions ::
  "env \<Rightarrow> world \<Rightarrow> string \<Rightarrow> holding list \<times> world" where
  "get_simple_earn_asset_positions e w a = asset_endpoints e a [FLEXIBLE, LOCKED] [] w"

subsection \<open>\<open>_get_earn_data\<close> (lines 211-254)\<close>

definition known_assets :: "string list" where
  "known_assets =
     [''ARB'', ''BNB'', ''BTC'', ''C'', ''ERA'', ''ETH'', ''HAEDAL'', ''HOME'', ''HUMA'',
      ''HYPER'', ''OP'', ''SOL'', ''ONDO'', ''TAO'']"

text \<open>The loop of lines 232-239 over the missing assets.\<close>

fun specific_loop ::
  "env \<Rightarrow> string list \<Rightarrow> holding list \<Rightarrow> world \<Rightarrow> holding list \<times> world" where
  "specific_loop e [] earn_data w = (earn_data, w)"
| "specific_loop e (a # missing) earn_data w =
     (case get_simple_earn_asset_positions e w a of
        (specific_positions, w') \<Rightarrow>
          if specific_positions \<noteq> []
          then specific_loop e missing (earn_data @ specific_positions) w'
          else specific_loop e missing earn_data w')"

text \<open>The loop of lines 242-247, with \<open>unique_earn_data\<close> and \<open>seen_assets\<close> as they
  stand.\<close>

fun unique_loop :: "holding list \<Rightarrow> holding list \<Rightarrow> string set \<Rightarrow> holding list" where
  "unique_loop [] unique_earn_data seen_assets = unique_earn_data"
| "unique_loop (item # items) unique_earn_data seen_assets =
     (if asset item \<notin> seen_assets
      then unique_loop items (unique_earn_data @ [item]) (insert (asset item) seen_assets)
      else unique_loop items unique_earn_data seen_assets)"

text \<open>Lines 219-239: the list \<open>earn_data\<close> before duplicates are removed, the bulk
  positions followed by the positions of the specific searches.\<close>

definition collect_earn_data :: "env \<Rightarrow> world \<Rightarrow> holding list \<times> world" where
  "collect_earn_data e w =
     (case get_all_simple_earn_positions e w of
        (all_positions, w1) \<Rightarrow>
          (let earn_data = (if all_positions \<noteq> [] then [] @ all_positions else []);
               found_assets = map asset earn_data;
               missing_assets = filter (\<lambda>a. a \<notin> set found_assets) known_assets
           in specific_loop e missing_assets earn_data w1))"

definition get_earn_data :: "env \<Rightarrow> world \<Rightarrow> holding list \<times> world" where
  "get_earn_data e w =
     (case collect_earn_data e w of
        (earn_data, w') \<Rightarrow> (unique_loop earn_data [] {}, w'))"

subsection \<open>\<open>get_portfolio_data\<close> (lines 105-159)\<close>

text \<open>Lines 121-138. Every dictionary the two sources build has the four required
  fields, so the test that remains is the one of lines 128-130.\<close>

definition valid_item :: "holding \<Rightarrow> bool" where
  "valid_item item \<longleftrightarrow> quantity item > 0 \<and> current_price item > 0 \<and> current_value item > 0"

text \<open>
  \<open>list.sort(key=..., reverse=True)\<close>: Python reverses the list, sorts it stably in
  ascending order of the key and reverses the result, so that equal keys keep their
  original order.
\<close>

definition sort_reverse :: "('a \<Rightarrow> real) \<Rightarrow> 'a list \<Rightarrow> 'a list" where
  "sort_reverse key xs = rev (sort_key key (rev xs))"

text \<open>Lines 121-141: \<open>filtered_data\<close> before it is sorted.\<close>

definition filtered_data :: "holding list \<Rightarrow> holding list" where
  "filtered_data portfolio_data =
     filter (\<lambda>item. current_value item \<ge> 1) (filter valid_item portfolio_data)"

text \<open>
  The outcome of \<open>get_portfolio_data\<close> is an exception (\<open>Inl\<close>) or the returned list
  (\<open>Inr\<close>). The handler of lines 157-159 raises again whatever the body raised; the
  two sources absorb their own exceptions and nothing else in the body can raise on
  the dictionaries they build, so the body has the one outcome below.
\<close>

datatype exception = Exception

definition get_portfolio_data :: "env \<Rightarrow> world \<Rightarrow> (exception + holding list) \<times> world" where
  "get_portfolio_data e w =
     (case get_spot_data e w of
        (spot_data, w1) \<Rightarrow>
          (case get_earn_data e w1 of
             (earn_data, w2) \<Rightarrow>
               (Inr (sort_reverse current_value (filtered_data (spot_data @ earn_data))), w2)))"

section \<open>Notions used to state the properties\<close>

text \<open>The replies after which a retry loop goes to its next attempt: the handler of
  \<open>RequestException\<close> (lines 346-350, 516-519), which receives the exceptions of
  \<open>requests.get\<close> and of \<open>response.json()\<close>, and the \<open>else\<close> branch of the status
  test (lines 341-344, 512-514).\<close>

fun failed :: "http_result \<Rightarrow> bool" where
  "failed RequestException = True"
| "failed (Response status_code b) = (status_code \<noteq> 200 \<or> b = JSONDecodeError)"

text \<open>The world after one attempt: the clock was read for the timestamp and the
  request was sent.\<close>

definition after_attempt :: "world \<Rightarrow> product_type \<Rightarrow> string option \<Rightarrow> world" where
  "after_attempt w product a =
     w\<lparr>clock_reads := Suc (clock_reads w), net_log := net_log w @ [GetPosition product a]\<rparr>"

text \<open>
  The reconciliation as the specification words it: "deduplicate by asset symbol,
  keeping only the first occurrence" (\<open>dedup_first\<close>), applied to "Strategy A and
  Strategy B results in that order" (\<open>reconcile_spec\<close>). These two definitions follow
  the specification, not the source; the source's loop is \<open>unique_loop\<close>.
\<close>

fun dedup_first :: "holding list \<Rightarrow> holding list" where
  "dedup_first [] = []"
| "dedup_first (x # xs) = x # dedup_first (filter (\<lambda>y. asset y \<noteq> asset x) xs)"

definition reconcile_spec :: "holding list \<Rightarrow> holding list \<Rightarrow> holding list" where
  "reconcile_spec A B = dedup_first (A @ B)"

text \<open>What the two strategies contribute inside \<open>_get_earn_data\<close>: the bulk
  positions (line 219), and the positions the specific searches of lines 232-239
  find for the known assets missing from the bulk positions.\<close>

definition strategy_A :: "env \<Rightarrow> world \<Rightarrow> holding list" where
  "strategy_A e w = fst (get_all_simple_earn_positions e w)"

definition strategy_B :: "env \<Rightarrow> world \<Rightarrow> holding list" where
  "strategy_B e w =
     (case get_all_simple_earn_positions e w of
        (all_positions, w1) \<Rightarrow>
          fst (specific_loop e
                 (filter (\<lambda>a. a \<notin> set (map asset all_positions)) known_assets) [] w1))"

text \<open>The body of \<open>_get_spot_data\<close> raised: \<open>get_account\<close> failed, or a balance
  could not be read.\<close>

definition spot_fetch_raises :: "env \<Rightarrow> world \<Rightarrow> bool" where
  "spot_fetch_raises e w =
     (case call_get_account e w of
        (None, w1) \<Rightarrow> True
      | (Some balances, w1) \<Rightarrow> fst (spot_loop e balances [] w1) = Raised)"

text \<open>The world after a specific search whose four attempts (two per endpoint) all
  failed.\<close>

definition skip_world :: "world \<Rightarrow> string \<Rightarrow> world" where
  "skip_world w a =
     w\<lparr>clock_reads := clock_reads w + 4,
       net_log := net_log w @ [GetPosition FLEXIBLE (Some a), GetPosition FLEXIBLE (Some a),
                               GetPosition LOCKED (Some a), GetPosition LOCKED (Some a)]\<rparr>"

section \<open>Concrete environments\<close>

text \<open>The manager before its first call: no price cached, no clock reading, no
  network call.\<close>

definition initial_world :: world where
  "initial_world = \<lparr>price_cache = Map.empty, clock_reads = 0, net_log = []\<rparr>"

text \<open>A market where BTC, ETH and LDO have a direct USDT pair, SOL has only a BTC
  pair, and nothing else is listed.\<close>

definition demo_ticker :: "nat \<Rightarrow> string \<Rightarrow> real option" where
  "demo_ticker n symbol =
     (if symbol = ''BTCUSDT'' then Some 50000
      else if symbol = ''ETHUSDT'' then Some 3000
      else if symbol = ''LDOUSDT'' then Some 2
      else if symbol = ''SOLBTC'' then Some (1 / 500)
      else None)"

definition ldo_balance :: balance where
  "ldo_balance = \<lparr>bal_asset = Some ''LDO'', free = Some 40, locked = Some 0\<rparr>"

definition xyz_balance :: balance where
  "xyz_balance = \<lparr>bal_asset = Some ''XYZ'', free = Some 10, locked = Some 0\<rparr>"

definition btc_balance :: balance where
  "btc_balance = \<lparr>bal_asset = Some ''BTC'', free = Some 1, locked = Some (1 / 2)\<rparr>"

definition xyz_row :: earn_row where
  "xyz_row = \<lparr>row_asset = Some ''XYZ'', totalAmount = Some 5,
               latestAnnualPercentageRate = None\<rparr>"

definition btc_row :: earn_row where
  "btc_row = \<lparr>row_asset = Some ''BTC'', totalAmount = Some 2,
               latestAnnualPercentageRate = Some (Some (1 / 100))\<rparr>"

text \<open>An account with three spot balances, the time standing at 1000, and a
  transport that is down.\<close>

definition spot_env :: env where
  "spot_env =
     \<lparr>clock = (\<lambda>k. 1000),
      get_account = (\<lambda>n. Some [ldo_balance, xyz_balance, btc_balance]),
      get_symbol_ticker = demo_ticker,
      requests_get = (\<lambda>n product a. RequestException)\<rparr>"

text \<open>A manager that cached a BTC price 200 seconds before time 1000.\<close>

definition warm_world :: world where
  "warm_world =
     \<lparr>price_cache = [''BTC'' \<mapsto> (49000, 800)], clock_reads = 0, net_log = []\<rparr>"

text \<open>The bulk flexible endpoint fails twice (an exception, then status 500) and
  answers at the third attempt; every other position request raises.\<close>

definition flaky_env :: env where
  "flaky_env =
     \<lparr>clock = (\<lambda>k. 1000),
      get_account = (\<lambda>n. None),
      get_symbol_ticker = demo_ticker,
      requests_get = (\<lambda>n product a.
         if product = FLEXIBLE \<and> a = None then
           (if n = 0 then RequestException
            else if n = 1 then Response 500 BadBody
            else Response 200 (Json [xyz_row, btc_row]))
         else RequestException)\<rparr>"

text \<open>The flexible endpoint always answers 503; the locked endpoint always answers
  with one BTC position.\<close>

definition locked_only_env :: env where
  "locked_only_env =
     \<lparr>clock = (\<lambda>k. 1000),
      get_account = (\<lambda>n. None),
      get_symbol_ticker = demo_ticker,
      requests_get = (\<lambda>n product a.
         if product = LOCKED then Response 200 (Json [btc_row]) else Response 503 BadBody)\<rparr>"

text \<open>A yield position of the given asset and quantity, priced at 1.\<close>

definition position :: "string \<Rightarrow> real \<Rightarrow> holding" where
  "position a amount = earn_holding a amount 1 FLEXIBLE 0"

definition eth_row :: earn_row where
  "eth_row = \<lparr>row_asset = Some ''ETH'', totalAmount = Some 1,
               latestAnnualPercentageRate = None\<rparr>"

definition eth_locked_row :: earn_row where
  "eth_locked_row = \<lparr>row_asset = Some ''ETH'', totalAmount = Some 2,
               latestAnnualPercentageRate = Some (Some (5 / 100))\<rparr>"

definition sol_row :: earn_row where
  "sol_row = \<lparr>row_asset = Some ''SOL'', totalAmount = Some 30,
               latestAnnualPercentageRate = None\<rparr>"

definition sol_locked_row :: earn_row where
  "sol_locked_row = \<lparr>row_asset = Some ''SOL'', totalAmount = Some 4,
               latestAnnualPercentageRate = None\<rparr>"

text \<open>
  An account that holds BTC in the spot wallet and in a flexible product, ETH in a
  flexible and in a locked product, and SOL in products that only the specific
  search reports. Every other specific search raises.
\<close>

definition full_env :: env where
  "full_env =
     \<lparr>clock = (\<lambda>k. 1000),
      get_account = (\<lambda>n. Some [ldo_balance, xyz_balance, btc_balance]),
      get_symbol_ticker = demo_ticker,
      requests_get = (\<lambda>n product a.
         if a = None then
           (if product = FLEXIBLE then Response 200 (Json [btc_row, eth_row])
            else Response 200 (Json [eth_locked_row]))
         else if a = Some ''SOL'' then
           (if product = FLEXIBLE then Response 200 (Json [sol_row])
            else Response 200 (Json [sol_locked_row]))
         else RequestException)\<rparr>"

text \<open>The world in which \<open>full_env\<close> leaves the manager after \<open>_get_spot_data\<close>.\<close>

definition world1 :: world where
  "world1 = \<lparr>price_cache = [''BTC'' \<mapsto> (50000, 1000)], clock_reads = 2,
      net_log = [GetAccount, GetSymbolTicker ''XYZUSDT'', GetSymbolTicker ''XYZBTC'',
                 GetSymbolTicker ''BTCUSDT'']\<rparr>"

text \<open>The final portfolio of \<open>full_env\<close>.\<close>

definition full_portfolio :: "holding list" where
  "full_portfolio =
     [earn_holding ''BTC'' 2 50000 FLEXIBLE 1, spot_holding ''BTC'' (3 / 2) 50000,
      earn_holding ''ETH'' 1 3000 FLEXIBLE 0, earn_holding ''SOL'' 30 100 FLEXIBLE 0]"

text \<open>A transport on which every position request raises, and an exchange whose
  account call raises as well.\<close>

definition unreachable :: "nat \<Rightarrow> product_type \<Rightarrow> string option \<Rightarrow> http_result" where
  "unreachable n product a = RequestException"

definition dead_env :: env where
  "dead_env =
     \<lparr>clock = (\<lambda>k. 1000),
      get_account = (\<lambda>n. None),
      get_symbol_ticker = demo_ticker,
      requests_get = unreachable\<rparr>"


text \<open>A transport that always answers with status 200 and a body that is not
  JSON.\<close>

definition garbled :: "nat \<Rightarrow> product_type \<Rightarrow> string option \<Rightarrow> http_result" where
  "garbled n product a = Response 200 JSONDecodeError"

definition garbled_env :: env where
  "garbled_env =
     \<lparr>clock = (\<lambda>k. 1000),
      get_account = (\<lambda>n. None),
      get_symbol_ticker = demo_ticker,
      requests_get = garbled\<rparr>"

section \<open>The price resolver\<close>

lemma get_current_price_cached:
  assumes "cached_price (price_cache w) a (clock e (clock_reads w)) = Some cp"
  shows "get_current_price e w a = (cp, w\<lparr>clock_reads := Suc (clock_reads w)\<rparr>)"
  using assms by (simp add: get_current_price_def time_time_def)

lemma get_current_price_fetch:
  assumes "cached_price (price_cache w) a (clock e (clock_reads w)) = None"
  shows "get_current_price e w a =
     (case fetch_price e (w\<lparr>clock_reads := Suc (clock_reads w)\<rparr>) a of
        (None, w1) \<Rightarrow> (0, w1)
      | (Some price, w1) \<Rightarrow>
          (price, w1\<lparr>price_cache := (price_cache w1)(a \<mapsto> (price, clock e (clock_reads w)))\<rparr>))"
  using assms by (simp add: get_current_price_def time_time_def)

lemma fetch_price_two_hops:
  assumes "get_symbol_ticker e (length (net_log w)) (a @ ''USDT'') = None"
    and "get_symbol_ticker e (length (net_log w) + 1) (a @ ''BTC'') = Some btc_price"
    and "get_symbol_ticker e (length (net_log w) + 2) ''BTCUSDT'' = Some btc_usdt"
  shows "fst (fetch_price e w a) = Some (btc_price * btc_usdt)"
  using assms by (simp add: fetch_price_def call_get_symbol_ticker_def)

lemma fetch_price_fails:
  assumes "get_symbol_ticker e (length (net_log w)) (a @ ''USDT'') = None"
    and "get_symbol_ticker e (length (net_log w) + 1) (a @ ''BTC'') = None
       \<or> get_symbol_ticker e (length (net_log w) + 2) ''BTCUSDT'' = None"
  shows "fst (fetch_price e w a) = None"
  using assms by (auto simp add: fetch_price_def call_get_symbol_ticker_def split: option.splits)

lemma get_current_price_unresolved:
  assumes "cached_price (price_cache w) a (clock e (clock_reads w)) = None"
    and "get_symbol_ticker e (length (net_log w)) (a @ ''USDT'') = None"
    and "get_symbol_ticker e (length (net_log w) + 1) (a @ ''BTC'') = None
       \<or> get_symbol_ticker e (length (net_log w) + 2) ''BTCUSDT'' = None"
  shows "fst (get_current_price e w a) = 0"
proof -
  let ?w0 = "w\<lparr>clock_reads := Suc (clock_reads w)\<rparr>"
  have "fst (fetch_price e ?w0 a) = None"
    using assms(2,3) fetch_price_fails [of e ?w0 a] by simp
  then show ?thesis
    by (cases "fetch_price e ?w0 a") (simp add: get_current_price_fetch [OF assms(1)])
qed

lemma initial_world_nothing_cached:
  "cached_price (price_cache initial_world) a (clock e (clock_reads initial_world)) = None"
  by (simp add: cached_price_def initial_world_def)

text \<open>
  Claim C4. When the cache holds an entry for the asset and the entry is less than
  300 seconds old at the time of the lookup, \<open>_get_current_price\<close> returns the cached
  price as it is and makes no network call: the call log and the cache are as before.
\<close>

theorem cached_price_returned_without_network_call:
  assumes "price_cache w a = Some (cp, cached_time)"
    and "clock e (clock_reads w) - cached_time < 300"
  shows "fst (get_current_price e w a) = cp
       \<and> net_log (snd (get_current_price e w a)) = net_log w
       \<and> price_cache (snd (get_current_price e w a)) = price_cache w"
proof -
  have "cached_price (price_cache w) a (clock e (clock_reads w)) = Some cp"
    using assms by (simp add: cached_price_def)
  then show ?thesis by (simp add: get_current_price_cached)
qed

theorem cached_price_returned_without_network_call_witness:
  "price_cache warm_world ''BTC'' = Some (49000, 800)
   \<and> clock spot_env (clock_reads warm_world) - 800 < 300
   \<and> fst (get_current_price spot_env warm_world ''BTC'') = 49000
   \<and> net_log (snd (get_current_price spot_env warm_world ''BTC'')) = []"
proof -
  have h1: "price_cache warm_world ''BTC'' = Some (49000, 800)"
    by (simp add: warm_world_def)
  have h2: "clock spot_env (clock_reads warm_world) - 800 < 300"
    by (simp add: spot_env_def)
  have n: "net_log warm_world = []" by (simp add: warm_world_def)
  show ?thesis
    using cached_price_returned_without_network_call [OF h1 h2] h1 h2 n by simp
qed

text \<open>
  Claim C5. When no fresh price is cached and the direct pair \<open>{asset}USDT\<close> fails:
  if the hop \<open>{asset}BTC\<close> and the hop \<open>BTCUSDT\<close> both succeed, \<open>_get_current_price\<close>
  returns the product of the two prices; if either hop fails, the resolution fails
  as a whole (no price is fetched and the function returns 0.0).
\<close>

theorem two_hop_price_is_product:
  assumes "cached_price (price_cache w) a (clock e (clock_reads w)) = None"
    and "get_symbol_ticker e (length (net_log w)) (a @ ''USDT'') = None"
  shows "(get_symbol_ticker e (length (net_log w) + 1) (a @ ''BTC'') = Some btc_price
          \<and> get_symbol_ticker e (length (net_log w) + 2) ''BTCUSDT'' = Some btc_usdt
          \<longrightarrow> fst (get_current_price e w a) = btc_price * btc_usdt)
       \<and> (get_symbol_ticker e (length (net_log w) + 1) (a @ ''BTC'') = None
          \<or> get_symbol_ticker e (length (net_log w) + 2) ''BTCUSDT'' = None
          \<longrightarrow> fst (fetch_price e (snd (time_time e w)) a) = None
              \<and> fst (get_current_price e w a) = 0)"
proof (intro conjI impI)
  let ?w0 = "w\<lparr>clock_reads := Suc (clock_reads w)\<rparr>"
  assume h: "get_symbol_ticker e (length (net_log w) + 1) (a @ ''BTC'') = Some btc_price
          \<and> get_symbol_ticker e (length (net_log w) + 2) ''BTCUSDT'' = Some btc_usdt"
  have "fst (fetch_price e ?w0 a) = Some (btc_price * btc_usdt)"
    using assms(2) h fetch_price_two_hops [of e ?w0 a btc_price btc_usdt] by simp
  then show "fst (get_current_price e w a) = btc_price * btc_usdt"
    by (cases "fetch_price e ?w0 a") (simp add: get_current_price_fetch [OF assms(1)])
next
  assume h: "get_symbol_ticker e (length (net_log w) + 1) (a @ ''BTC'') = None
          \<or> get_symbol_ticker e (length (net_log w) + 2) ''BTCUSDT'' = None"
  show "fst (fetch_price e (snd (time_time e w)) a) = None"
    using assms(2) h fetch_price_fails [of e "snd (time_time e w)" a]
    by (simp add: time_time_def)
  show "fst (get_current_price e w a) = 0"
    using get_current_price_unresolved [OF assms h] .
qed

theorem two_hop_price_is_product_witness:
  "cached_price (price_cache initial_world) ''SOL''
      (clock spot_env (clock_reads initial_world)) = None
   \<and> get_symbol_ticker spot_env (length (net_log initial_world)) (''SOL'' @ ''USDT'') = None
   \<and> get_symbol_ticker spot_env (length (net_log initial_world) + 1) (''SOL'' @ ''BTC'')
       = Some (1 / 500)
   \<and> get_symbol_ticker spot_env (length (net_log initial_world) + 2) ''BTCUSDT'' = Some 50000
   \<and> fst (get_current_price spot_env initial_world ''SOL'') = 1 / 500 * 50000
   \<and> get_symbol_ticker spot_env (length (net_log initial_world)) (''XYZ'' @ ''USDT'') = None
   \<and> get_symbol_ticker spot_env (length (net_log initial_world) + 1) (''XYZ'' @ ''BTC'') = None
   \<and> fst (get_current_price spot_env initial_world ''XYZ'') = 0"
proof -
  note s = initial_world_nothing_cached
  have d1: "get_symbol_ticker spot_env (length (net_log initial_world)) (''SOL'' @ ''USDT'') = None"
    by (simp add: spot_env_def demo_ticker_def)
  have h1: "get_symbol_ticker spot_env (length (net_log initial_world) + 1) (''SOL'' @ ''BTC'')
      = Some (1 / 500)"
    by (simp add: spot_env_def demo_ticker_def)
  have h2: "get_symbol_ticker spot_env (length (net_log initial_world) + 2) ''BTCUSDT'' = Some 50000"
    by (simp add: spot_env_def demo_ticker_def)
  have d2: "get_symbol_ticker spot_env (length (net_log initial_world)) (''XYZ'' @ ''USDT'') = None"
    by (simp add: spot_env_def demo_ticker_def)
  have h3: "get_symbol_ticker spot_env (length (net_log initial_world) + 1) (''XYZ'' @ ''BTC'') = None"
    by (simp add: spot_env_def demo_ticker_def)
  have r1: "fst (get_current_price spot_env initial_world ''SOL'') = 1 / 500 * 50000"
    using two_hop_price_is_product [OF s d1, of "1 / 500" 50000] h1 h2 by blast
  have r2: "fst (get_current_price spot_env initial_world ''XYZ'') = 0"
    using two_hop_price_is_product [OF s d2, of 0 0] h3 by blast
  show ?thesis using s d1 h1 h2 r1 d2 h3 r2 by blast
qed

section \<open>The spot wallet\<close>

lemma asset_spot_holding: "asset (spot_holding a t p) = a"
  by (simp add: spot_holding_def)

lemma asset_earn_holding: "asset (earn_holding a t p product r) = a"
  by (simp add: earn_holding_def)

lemma spot_loop_no_LD:
  assumes "\<forall>h \<in> set spot_data. \<not> startswith (asset h) ''LD''"
  shows "\<forall>h \<in> set (fst (snd (spot_loop e bs spot_data w))). \<not> startswith (asset h) ''LD''"
  using assms
proof (induction bs arbitrary: spot_data w)
  case Nil
  then show ?case by simp
next
  case (Cons b bs)
  show ?case
  proof (cases "bal_asset b")
    case None
    then show ?thesis using Cons.prems by simp
  next
    case (Some a)
    show ?thesis
    proof (cases "startswith a ''LD''")
      case True
      then show ?thesis using Some Cons.IH [OF Cons.prems] by simp
    next
      case False
      have ext: "\<forall>h \<in> set (spot_data @ [spot_holding a t p]). \<not> startswith (asset h) ''LD''"
        for t p
        using False Cons.prems by (simp add: asset_spot_holding)
      show ?thesis
        using Some False Cons.prems Cons.IH [OF Cons.prems] Cons.IH [OF ext]
        by (simp split: option.splits prod.splits)
    qed
  qed
qed

lemma spot_env_spot_data:
  "fst (get_spot_data spot_env initial_world) = [spot_holding ''BTC'' (3 / 2) 50000]"
  by (simp add: get_spot_data_def call_get_account_def spot_env_def initial_world_def
      ldo_balance_def xyz_balance_def btc_balance_def startswith_def get_current_price_def
      time_time_def cached_price_def fetch_price_def call_get_symbol_ticker_def demo_ticker_def)

text \<open>
  Claim C9. No holding returned by \<open>_get_spot_data\<close> has an asset symbol that begins
  with \<open>LD\<close>; a balance with such a symbol is passed over before its quantity is read
  or its price is asked for, so the loop goes on exactly as if the balance were not
  in the listing. A genuine asset such as LDO is therefore never reported.
\<close>

theorem spot_skips_LD_prefix:
  "(\<forall>h \<in> set (fst (get_spot_data e w)). \<not> startswith (asset h) ''LD'')
   \<and> (bal_asset b = Some a \<and> startswith a ''LD''
        \<longrightarrow> spot_loop e (b # bs) spot_data w' = spot_loop e bs spot_data w')"
proof (intro conjI impI)
  show "\<forall>h \<in> set (fst (get_spot_data e w)). \<not> startswith (asset h) ''LD''"
  proof (cases "call_get_account e w")
    case (Pair r w1)
    show ?thesis
    proof (cases r)
      case None
      with Pair show ?thesis by (simp add: get_spot_data_def)
    next
      case (Some balances)
      have "\<forall>h \<in> set (fst (snd (spot_loop e balances [] w1))). \<not> startswith (asset h) ''LD''"
        by (rule spot_loop_no_LD) simp
      with Pair Some show ?thesis
        by (auto simp add: get_spot_data_def split: prod.splits completion.splits)
    qed
  qed
next
  assume "bal_asset b = Some a \<and> startswith a ''LD''"
  then show "spot_loop e (b # bs) spot_data w' = spot_loop e bs spot_data w'" by simp
qed

theorem spot_skips_LD_prefix_witness:
  "fst (get_spot_data spot_env initial_world) = [spot_holding ''BTC'' (3 / 2) 50000]
   \<and> \<not> startswith (asset (spot_holding ''BTC'' (3 / 2) 50000)) ''LD''
   \<and> bal_asset ldo_balance = Some ''LDO'' \<and> startswith ''LDO'' ''LD''
   \<and> spot_loop spot_env [ldo_balance, xyz_balance, btc_balance] [] initial_world
       = spot_loop spot_env [xyz_balance, btc_balance] [] initial_world"
proof -
  have h: "bal_asset ldo_balance = Some ''LDO'' \<and> startswith ''LDO'' ''LD''"
    by (simp add: ldo_balance_def startswith_def)
  note t = spot_skips_LD_prefix [of spot_env initial_world ldo_balance "''LDO''"
      "[xyz_balance, btc_balance]" "[]" initial_world]
  from t have "\<forall>h \<in> set (fst (get_spot_data spot_env initial_world)).
      \<not> startswith (asset h) ''LD''"
    by (rule conjunct1)
  then have "\<forall>h \<in> set [spot_holding ''BTC'' (3 / 2) 50000]. \<not> startswith (asset h) ''LD''"
    by (simp only: spot_env_spot_data)
  then have n: "\<not> startswith (asset (spot_holding ''BTC'' (3 / 2) 50000)) ''LD''"
    by simp
  show ?thesis using t spot_env_spot_data h n by blast
qed

text \<open>
  Claim C3. When no fresh price is cached and the resolution fails on the direct
  pair and on the two-hop path, \<open>_get_current_price\<close> returns 0.0 (it has no raising
  outcome), and each loop that asked for the price emits nothing for that asset and
  goes on with the entries that remain: the spot loop, the bulk row loop and the
  row loop of the specific search.
\<close>

theorem unresolved_price_skips_one_asset:
  assumes "cached_price (price_cache w) a (clock e (clock_reads w)) = None"
    and "get_symbol_ticker e (length (net_log w)) (a @ ''USDT'') = None"
    and "get_symbol_ticker e (length (net_log w) + 1) (a @ ''BTC'') = None
       \<or> get_symbol_ticker e (length (net_log w) + 2) ''BTCUSDT'' = None"
  shows "fst (get_current_price e w a) = 0
    \<and> (bal_asset b = Some a \<and> \<not> startswith a ''LD'' \<and> free b = Some fr \<and> locked b = Some lk
         \<and> fr + lk > 0
        \<longrightarrow> spot_loop e (b # bs) spot_data w
            = spot_loop e bs spot_data (snd (get_current_price e w a)))
    \<and> (row_asset pos = Some a \<and> totalAmount pos = Some amount \<and> amount > 0
        \<longrightarrow> bulk_rows e product (pos # rows) positions w
            = bulk_rows e product rows positions (snd (get_current_price e w a)))
    \<and> (totalAmount pos = Some amount \<and> amount > 0
        \<longrightarrow> asset_rows e a product (pos # rows) positions w
            = asset_rows e a product rows positions (snd (get_current_price e w a)))"
proof -
  have z: "fst (get_current_price e w a) = 0"
    using get_current_price_unresolved [OF assms] .
  obtain p w1 where pw: "get_current_price e w a = (p, w1)"
    by (cases "get_current_price e w a")
  with z have p: "p = 0" by simp
  show ?thesis using pw p by simp
qed

lemma spot_env_rest:
  "fst (snd (spot_loop spot_env [xyz_balance, btc_balance] [] initial_world))
     = [spot_holding ''BTC'' (3 / 2) 50000]"
  by (simp add: spot_env_def initial_world_def
      xyz_balance_def btc_balance_def startswith_def get_current_price_def
      time_time_def cached_price_def fetch_price_def call_get_symbol_ticker_def demo_ticker_def)

lemma spot_env_rows:
  "fst (snd (bulk_rows spot_env FLEXIBLE [xyz_row, btc_row] [] initial_world))
     = [earn_holding ''BTC'' 2 50000 FLEXIBLE 1]"
  by (simp add: spot_env_def initial_world_def
      xyz_row_def btc_row_def get_current_price_def
      time_time_def cached_price_def fetch_price_def call_get_symbol_ticker_def demo_ticker_def)

theorem unresolved_price_skips_one_asset_witness:
  "cached_price (price_cache initial_world) ''XYZ''
      (clock spot_env (clock_reads initial_world)) = None
   \<and> get_symbol_ticker spot_env (length (net_log initial_world)) (''XYZ'' @ ''USDT'') = None
   \<and> get_symbol_ticker spot_env (length (net_log initial_world) + 1) (''XYZ'' @ ''BTC'') = None
   \<and> fst (get_current_price spot_env initial_world ''XYZ'') = 0
   \<and> bal_asset xyz_balance = Some ''XYZ'' \<and> \<not> startswith ''XYZ'' ''LD''
   \<and> free xyz_balance = Some 10 \<and> locked xyz_balance = Some 0 \<and> (10::real) + 0 > 0
   \<and> spot_loop spot_env [xyz_balance, btc_balance] [] initial_world
       = spot_loop spot_env [btc_balance] []
           (snd (get_current_price spot_env initial_world ''XYZ''))
   \<and> fst (snd (spot_loop spot_env [xyz_balance, btc_balance] [] initial_world))
       = [spot_holding ''BTC'' (3 / 2) 50000]
   \<and> row_asset xyz_row = Some ''XYZ'' \<and> totalAmount xyz_row = Some 5 \<and> (5::real) > 0
   \<and> bulk_rows spot_env FLEXIBLE [xyz_row, btc_row] [] initial_world
       = bulk_rows spot_env FLEXIBLE [btc_row] []
           (snd (get_current_price spot_env initial_world ''XYZ''))
   \<and> fst (snd (bulk_rows spot_env FLEXIBLE [xyz_row, btc_row] [] initial_world))
       = [earn_holding ''BTC'' 2 50000 FLEXIBLE 1]
   \<and> asset_rows spot_env ''XYZ'' LOCKED [xyz_row, btc_row] [] initial_world
       = asset_rows spot_env ''XYZ'' LOCKED [btc_row] []
           (snd (get_current_price spot_env initial_world ''XYZ''))"
proof -
  note s = initial_world_nothing_cached [of "''XYZ''" spot_env]
  have d: "get_symbol_ticker spot_env (length (net_log initial_world)) (''XYZ'' @ ''USDT'') = None"
    by (simp add: spot_env_def demo_ticker_def)
  have h: "get_symbol_ticker spot_env (length (net_log initial_world) + 1) (''XYZ'' @ ''BTC'') = None"
    by (simp add: spot_env_def demo_ticker_def)
  have b: "bal_asset xyz_balance = Some ''XYZ'' \<and> \<not> startswith ''XYZ'' ''LD''
      \<and> free xyz_balance = Some 10 \<and> locked xyz_balance = Some 0 \<and> (10::real) + 0 > 0"
    by (simp add: xyz_balance_def startswith_def)
  have r: "row_asset xyz_row = Some ''XYZ'' \<and> totalAmount xyz_row = Some 5 \<and> (5::real) > 0"
    by (simp add: xyz_row_def)
  note t = unresolved_price_skips_one_asset [OF s d disjI1 [OF h],
      of xyz_balance 10 0 "[btc_balance]" "[]" xyz_row 5 FLEXIBLE "[btc_row]" "[]"]
  note u = unresolved_price_skips_one_asset [OF s d disjI1 [OF h],
      of xyz_balance 10 0 "[btc_balance]" "[]" xyz_row 5 LOCKED "[btc_row]" "[]"]
  show ?thesis using t u s d h b r spot_env_rest spot_env_rows by blast
qed

section \<open>The retry loops of the earn endpoints\<close>

lemma range_3: "range_py 3 = [0, 1, 2]"
  by (simp add: range_py_def upt_rec)

lemma range_2: "range_py 2 = [0, 1]"
  by (simp add: range_py_def upt_rec)

lemma get_current_price_count:
  "count_list (net_log (snd (get_current_price e w a))) (GetPosition q x)
     = count_list (net_log w) (GetPosition q x)"
  by (simp add: get_current_price_def time_time_def fetch_price_def call_get_symbol_ticker_def
      split: option.splits)

lemma get_current_price_count':
  "get_current_price e w a = (p, w1) \<Longrightarrow>
   count_list (net_log w1) (GetPosition q x) = count_list (net_log w) (GetPosition q x)"
  using get_current_price_count [of e w a q x] by simp

lemma bulk_rows_count:
  "count_list (net_log (snd (snd (bulk_rows e product rows positions w)))) (GetPosition q x)
     = count_list (net_log w) (GetPosition q x)"
proof (induction rows arbitrary: positions w)
  case Nil
  then show ?case by simp
next
  case (Cons pos rows)
  show ?case
    by (auto simp add: Cons.IH get_current_price_count' split: option.splits prod.splits)
qed

lemma asset_rows_count:
  "count_list (net_log (snd (snd (asset_rows e a product rows positions w)))) (GetPosition q x)
     = count_list (net_log w) (GetPosition q x)"
proof (induction rows arbitrary: positions w)
  case Nil
  then show ?case by simp
next
  case (Cons pos rows)
  show ?case
    by (auto simp add: Cons.IH get_current_price_count' split: option.splits prod.splits)
qed

declare bulk_attempts.simps [simp del] asset_attempts.simps [simp del]

lemma bulk_attempts_nil: "bulk_attempts e product [] all_positions w = (Completed, all_positions, w)"
  by (simp add: bulk_attempts.simps)

lemma asset_attempts_nil: "asset_attempts e a product [] positions w = (Completed, positions, w)"
  by (simp add: asset_attempts.simps)

lemma bulk_attempts_failed:
  assumes "failed (requests_get e (length (net_log w)) product None)"
  shows "bulk_attempts e product (attempt # attempts) all_positions w
       = bulk_attempts e product attempts all_positions (after_attempt w product None)"
  using assms
  by (cases "requests_get e (length (net_log w)) product None")
    (auto simp add: bulk_attempts.simps time_time_def call_requests_get_def after_attempt_def)

lemma asset_attempts_failed:
  assumes "failed (requests_get e (length (net_log w)) product (Some a))"
  shows "asset_attempts e a product (attempt # attempts) positions w
       = asset_attempts e a product attempts positions (after_attempt w product (Some a))"
  using assms
  by (cases "requests_get e (length (net_log w)) product (Some a)")
    (auto simp add: asset_attempts.simps time_time_def call_requests_get_def after_attempt_def)

lemma bulk_attempts_answered:
  assumes "requests_get e (length (net_log w)) product None = Response 200 b"
  shows "bulk_attempts e product (attempt # attempts) all_positions w =
     (case b of
        JSONDecodeError \<Rightarrow>
          bulk_attempts e product attempts all_positions (after_attempt w product None)
      | BadBody \<Rightarrow> (Raised, all_positions, after_attempt w product None)
      | Json rows \<Rightarrow>
          (case bulk_rows e product rows [] (after_attempt w product None) of
             (Raised, positions, w2) \<Rightarrow> (Raised, all_positions, w2)
           | (Completed, positions, w2) \<Rightarrow> (Completed, all_positions @ positions, w2)))"
  using assms
  by (simp add: bulk_attempts.simps asset_attempts.simps time_time_def call_requests_get_def
      after_attempt_def split: body.splits)

lemma asset_attempts_answered:
  assumes "requests_get e (length (net_log w)) product (Some a) = Response 200 b"
  shows "asset_attempts e a product (attempt # attempts) positions w =
     (case b of
        JSONDecodeError \<Rightarrow>
          asset_attempts e a product attempts positions (after_attempt w product (Some a))
      | BadBody \<Rightarrow> (Raised, positions, after_attempt w product (Some a))
      | Json rows \<Rightarrow> asset_rows e a product rows positions (after_attempt w product (Some a)))"
  using assms
  by (simp add: bulk_attempts.simps asset_attempts.simps time_time_def call_requests_get_def
      after_attempt_def split: body.splits)

lemma bulk_attempts_answered_count:
  assumes "requests_get e (length (net_log w)) product None = Response 200 b"
    and "b \<noteq> JSONDecodeError"
  shows "count_list (net_log (snd (snd (bulk_attempts e product (attempt # attempts) all_positions w))))
           (GetPosition q x)
       = count_list (net_log w) (GetPosition q x) + (if q = product \<and> x = None then 1 else 0)"
proof (cases b)
  case JSONDecodeError
  with assms(2) show ?thesis by simp
next
  case BadBody
  then show ?thesis
    by (simp add: bulk_attempts_answered [OF assms(1)] after_attempt_def)
next
  case (Json rows)
  let ?w1 = "after_attempt w product None"
  have "count_list (net_log (snd (snd (bulk_rows e product rows [] ?w1)))) (GetPosition q x)
      = count_list (net_log ?w1) (GetPosition q x)"
    by (rule bulk_rows_count)
  then show ?thesis
    using Json
    by (auto simp add: bulk_attempts_answered [OF assms(1)] after_attempt_def
        split: prod.splits completion.splits)
qed

lemma asset_attempts_answered_count:
  assumes "requests_get e (length (net_log w)) product (Some a) = Response 200 b"
    and "b \<noteq> JSONDecodeError"
  shows "count_list (net_log (snd (snd (asset_attempts e a product (attempt # attempts) positions w))))
           (GetPosition q x)
       = count_list (net_log w) (GetPosition q x) + (if q = product \<and> x = Some a then 1 else 0)"
proof (cases b)
  case JSONDecodeError
  with assms(2) show ?thesis by simp
next
  case BadBody
  then show ?thesis
    by (simp add: asset_attempts_answered [OF assms(1)] after_attempt_def)
next
  case (Json rows)
  let ?w1 = "after_attempt w product (Some a)"
  have "count_list (net_log (snd (snd (asset_rows e a product rows positions ?w1)))) (GetPosition q x)
      = count_list (net_log ?w1) (GetPosition q x)"
    by (rule asset_rows_count)
  then show ?thesis
    using Json
    by (auto simp add: asset_attempts_answered [OF assms(1)] after_attempt_def)
qed

lemma bulk_attempts_count:
  "count_list (net_log (snd (snd (bulk_attempts e product attempts all_positions w))))
       (GetPosition q x)
     \<le> count_list (net_log w) (GetPosition q x)
        + (if q = product \<and> x = None then length attempts else 0)"
proof (induction attempts arbitrary: w)
  case Nil
  then show ?case by (simp add: bulk_attempts_nil asset_attempts_nil)
next
  case (Cons attempt attempts)
  show ?case
  proof (cases "failed (requests_get e (length (net_log w)) product None)")
    case True
    show ?thesis
      using Cons.IH [of "after_attempt w product None"]
      by (auto simp add: bulk_attempts_failed [OF True] after_attempt_def split: if_splits)
  next
    case False
    then obtain b where r: "requests_get e (length (net_log w)) product None = Response 200 b"
      and nb: "b \<noteq> JSONDecodeError"
      by (cases "requests_get e (length (net_log w)) product None") auto
    show ?thesis
      using bulk_attempts_answered_count [OF r nb, of attempt attempts all_positions q x]
      by (simp split: if_splits)
  qed
qed

lemma asset_attempts_count:
  "count_list (net_log (snd (snd (asset_attempts e a product attempts positions w))))
       (GetPosition q x)
     \<le> count_list (net_log w) (GetPosition q x)
        + (if q = product \<and> x = Some a then length attempts else 0)"
proof (induction attempts arbitrary: w)
  case Nil
  then show ?case by (simp add: bulk_attempts_nil asset_attempts_nil)
next
  case (Cons attempt attempts)
  show ?case
  proof (cases "failed (requests_get e (length (net_log w)) product (Some a))")
    case True
    show ?thesis
      using Cons.IH [of "after_attempt w product (Some a)"]
      by (auto simp add: asset_attempts_failed [OF True] after_attempt_def split: if_splits)
  next
    case False
    then obtain b where r: "requests_get e (length (net_log w)) product (Some a) = Response 200 b"
      and nb: "b \<noteq> JSONDecodeError"
      by (cases "requests_get e (length (net_log w)) product (Some a)") auto
    show ?thesis
      using asset_attempts_answered_count [OF r nb, of attempt attempts positions q x]
      by (simp split: if_splits)
  qed
qed

lemma get_all_count:
  "count_list (net_log (snd (get_all_simple_earn_positions e w))) (GetPosition q None)
     \<le> count_list (net_log w) (GetPosition q None) + 3"
proof -
  obtain c1 ps1 w1 where a1: "bulk_attempts e FLEXIBLE (range_py 3) [] w = (c1, ps1, w1)"
    by (cases "bulk_attempts e FLEXIBLE (range_py 3) [] w") auto
  obtain c2 ps2 w2 where a2: "bulk_attempts e LOCKED (range_py 3) ps1 w1 = (c2, ps2, w2)"
    by (cases "bulk_attempts e LOCKED (range_py 3) ps1 w1") auto
  have l: "length (range_py 3) = 3" by (simp add: range_py_def)
  have b1: "count_list (net_log w1) (GetPosition q None)
      \<le> count_list (net_log w) (GetPosition q None) + (if q = FLEXIBLE then 3 else 0)"
    using bulk_attempts_count [of e FLEXIBLE "range_py 3" "[]" w q None] a1 l by (auto split: if_splits)
  have b2: "count_list (net_log w2) (GetPosition q None)
      \<le> count_list (net_log w1) (GetPosition q None) + (if q = LOCKED then 3 else 0)"
    using bulk_attempts_count [of e LOCKED "range_py 3" ps1 w1 q None] a2 l by (auto split: if_splits)
  have "count_list (net_log w2) (GetPosition q None)
      \<le> count_list (net_log w) (GetPosition q None) + 3"
    using b1 b2 by (cases q) simp_all
  then show ?thesis
    by (simp add: get_all_simple_earn_positions_def a1 a2)
qed

lemma get_asset_count:
  "count_list (net_log (snd (get_simple_earn_asset_positions e w a))) (GetPosition q x)
     \<le> count_list (net_log w) (GetPosition q x) + 2"
proof -
  obtain c1 ps1 w1 where a1: "asset_attempts e a FLEXIBLE (range_py 2) [] w = (c1, ps1, w1)"
    by (cases "asset_attempts e a FLEXIBLE (range_py 2) [] w") auto
  obtain c2 ps2 w2 where a2: "asset_attempts e a LOCKED (range_py 2) ps1 w1 = (c2, ps2, w2)"
    by (cases "asset_attempts e a LOCKED (range_py 2) ps1 w1") auto
  have l: "length (range_py 2) = 2" by (simp add: range_py_def)
  have b1: "count_list (net_log w1) (GetPosition q x)
      \<le> count_list (net_log w) (GetPosition q x) + (if q = FLEXIBLE \<and> x = Some a then 2 else 0)"
    using asset_attempts_count [of e a FLEXIBLE "range_py 2" "[]" w q x] a1 l by (auto split: if_splits)
  have b2: "count_list (net_log w2) (GetPosition q x)
      \<le> count_list (net_log w1) (GetPosition q x) + (if q = LOCKED \<and> x = Some a then 2 else 0)"
    using asset_attempts_count [of e a LOCKED "range_py 2" ps1 w1 q x] a2 l by (auto split: if_splits)
  have "count_list (net_log w2) (GetPosition q x) \<le> count_list (net_log w) (GetPosition q x) + 2"
    using b1 b2 by (cases q) (simp_all split: if_splits)
  then show ?thesis
    by (simp add: get_simple_earn_asset_positions_def a1 a2)
qed

lemma bulk_attempts_all_failed:
  assumes "failed (requests_get e (length (net_log w)) product None)"
    and "failed (requests_get e (length (net_log w) + 1) product None)"
    and "failed (requests_get e (length (net_log w) + 2) product None)"
  shows "bulk_attempts e product (range_py 3) all_positions w =
     (Completed, all_positions,
      w\<lparr>clock_reads := clock_reads w + 3,
        net_log := net_log w @ replicate 3 (GetPosition product None)\<rparr>)"
proof -
  let ?w1 = "after_attempt w product None"
  let ?w2 = "after_attempt ?w1 product None"
  have f1: "failed (requests_get e (length (net_log ?w1)) product None)"
    using assms(2) by (simp add: after_attempt_def)
  have f2: "failed (requests_get e (length (net_log ?w2)) product None)"
    using assms(3) by (simp add: after_attempt_def)
  show ?thesis
    by (simp add: range_3 bulk_attempts_failed [OF assms(1)] bulk_attempts_failed [OF f1]
        bulk_attempts_failed [OF f2] bulk_attempts_nil)
      (simp add: after_attempt_def numeral_3_eq_3)
qed

lemma asset_attempts_all_failed:
  assumes "failed (requests_get e (length (net_log w)) product (Some a))"
    and "failed (requests_get e (length (net_log w) + 1) product (Some a))"
  shows "asset_attempts e a product (range_py 2) positions w =
     (Completed, positions,
      w\<lparr>clock_reads := clock_reads w + 2,
        net_log := net_log w @ replicate 2 (GetPosition product (Some a))\<rparr>)"
proof -
  let ?w1 = "after_attempt w product (Some a)"
  have f1: "failed (requests_get e (length (net_log ?w1)) product (Some a))"
    using assms(2) by (simp add: after_attempt_def)
  show ?thesis
    by (simp add: range_2 asset_attempts_failed [OF assms(1)] asset_attempts_failed [OF f1] asset_attempts_nil)
      (simp add: after_attempt_def numeral_2_eq_2)
qed

lemmas eval_defs = get_all_simple_earn_positions_def get_simple_earn_asset_positions_def
  range_3 range_2 bulk_attempts.simps asset_attempts.simps
  time_time_def call_requests_get_def get_current_price_def cached_price_def fetch_price_def
  call_get_symbol_ticker_def demo_ticker_def xyz_row_def btc_row_def initial_world_def


lemma flaky_log:
  "net_log (snd (get_all_simple_earn_positions flaky_env initial_world)) =
    [GetPosition FLEXIBLE None, GetPosition FLEXIBLE None, GetPosition FLEXIBLE None,
     GetSymbolTicker ''XYZUSDT'', GetSymbolTicker ''XYZBTC'', GetSymbolTicker ''BTCUSDT'',
     GetPosition LOCKED None, GetPosition LOCKED None, GetPosition LOCKED None]"
  by (simp add: eval_defs flaky_env_def)

lemma locked_only_all:
  "fst (get_all_simple_earn_positions locked_only_env initial_world) = [earn_holding ''BTC'' 2 50000 LOCKED 1]"
  by (simp add: eval_defs locked_only_env_def)

lemma bulk_attempts_not_failed_count:
  assumes "\<not> failed (requests_get e (length (net_log w)) product None)"
  shows "count_list
           (net_log (snd (snd (bulk_attempts e product (attempt # attempts) all_positions w))))
           (GetPosition product None)
       = count_list (net_log w) (GetPosition product None) + 1"
proof -
  from assms obtain b where r: "requests_get e (length (net_log w)) product None = Response 200 b"
    and nb: "b \<noteq> JSONDecodeError"
    by (cases "requests_get e (length (net_log w)) product None") auto
  show ?thesis
    using bulk_attempts_answered_count [OF r nb, of attempt attempts all_positions product None]
    by simp
qed

lemma asset_attempts_not_failed_count:
  assumes "\<not> failed (requests_get e (length (net_log w)) product (Some a))"
  shows "count_list
           (net_log (snd (snd (asset_attempts e a product (attempt # attempts) positions w))))
           (GetPosition product (Some a))
       = count_list (net_log w) (GetPosition product (Some a)) + 1"
proof -
  from assms obtain b
    where r: "requests_get e (length (net_log w)) product (Some a) = Response 200 b"
    and nb: "b \<noteq> JSONDecodeError"
    by (cases "requests_get e (length (net_log w)) product (Some a)") auto
  show ?thesis
    using asset_attempts_answered_count [OF r nb, of attempt attempts positions product "Some a"]
    by simp
qed

text \<open>
  Claim C8, as amended. Within one run of \<open>_get_all_simple_earn_positions\<close> at most
  3 requests go to each product-type endpoint, and within one run of
  \<open>_get_simple_earn_asset_positions\<close> at most 2. An attempt is followed by another
  only when it failed, a failure being a \<open>RequestException\<close> raised by
  \<open>requests.get\<close>, a status other than 200, or a 200 reply whose body
  \<open>response.json()\<close> rejects with the library's \<open>JSONDecodeError\<close>: an attempt that
  did not fail is the last request to its endpoint, whatever attempts remain, and a
  failed attempt passes to the attempts that remain. When every attempt fails the
  loop ends after exactly 3 (respectively 2) requests with nothing added.
\<close>

theorem retry_attempts_bounded:
  "count_list (net_log (snd (get_all_simple_earn_positions e w))) (GetPosition product None)
     \<le> count_list (net_log w) (GetPosition product None) + 3
   \<and> count_list (net_log (snd (get_simple_earn_asset_positions e w a))) (GetPosition product x)
     \<le> count_list (net_log w) (GetPosition product x) + 2
   \<and> (\<not> failed (requests_get e (length (net_log w)) product None)
       \<longrightarrow> count_list
             (net_log (snd (snd (bulk_attempts e product (attempt # attempts) all_positions w))))
             (GetPosition product None)
           = count_list (net_log w) (GetPosition product None) + 1)
   \<and> (\<not> failed (requests_get e (length (net_log w)) product (Some a))
       \<longrightarrow> count_list
             (net_log (snd (snd (asset_attempts e a product (attempt # attempts) positions w))))
             (GetPosition product (Some a))
           = count_list (net_log w) (GetPosition product (Some a)) + 1)
   \<and> (failed (requests_get e (length (net_log w)) product None)
       \<longrightarrow> bulk_attempts e product (attempt # attempts) all_positions w
           = bulk_attempts e product attempts all_positions (after_attempt w product None))
   \<and> (failed (requests_get e (length (net_log w)) product (Some a))
       \<longrightarrow> asset_attempts e a product (attempt # attempts) positions w
           = asset_attempts e a product attempts positions (after_attempt w product (Some a)))
   \<and> (failed (requests_get e (length (net_log w)) product None)
       \<and> failed (requests_get e (length (net_log w) + 1) product None)
       \<and> failed (requests_get e (length (net_log w) + 2) product None)
       \<longrightarrow> bulk_attempts e product (range_py 3) all_positions w =
            (Completed, all_positions,
             w\<lparr>clock_reads := clock_reads w + 3,
               net_log := net_log w @ replicate 3 (GetPosition product None)\<rparr>))
   \<and> (failed (requests_get e (length (net_log w)) product (Some a))
       \<and> failed (requests_get e (length (net_log w) + 1) product (Some a))
       \<longrightarrow> asset_attempts e a product (range_py 2) positions w =
            (Completed, positions,
             w\<lparr>clock_reads := clock_reads w + 2,
               net_log := net_log w @ replicate 2 (GetPosition product (Some a))\<rparr>))"
proof (intro conjI impI)
  show "count_list (net_log (snd (get_all_simple_earn_positions e w))) (GetPosition product None)
     \<le> count_list (net_log w) (GetPosition product None) + 3"
    by (rule get_all_count)
  show "count_list (net_log (snd (get_simple_earn_asset_positions e w a))) (GetPosition product x)
     \<le> count_list (net_log w) (GetPosition product x) + 2"
    by (rule get_asset_count)
next
  assume "\<not> failed (requests_get e (length (net_log w)) product None)"
  then show "count_list
         (net_log (snd (snd (bulk_attempts e product (attempt # attempts) all_positions w))))
         (GetPosition product None)
       = count_list (net_log w) (GetPosition product None) + 1"
    by (rule bulk_attempts_not_failed_count)
next
  assume "\<not> failed (requests_get e (length (net_log w)) product (Some a))"
  then show "count_list
         (net_log (snd (snd (asset_attempts e a product (attempt # attempts) positions w))))
         (GetPosition product (Some a))
       = count_list (net_log w) (GetPosition product (Some a)) + 1"
    by (rule asset_attempts_not_failed_count)
next
  assume "failed (requests_get e (length (net_log w)) product None)"
  then show "bulk_attempts e product (attempt # attempts) all_positions w
           = bulk_attempts e product attempts all_positions (after_attempt w product None)"
    by (rule bulk_attempts_failed)
next
  assume "failed (requests_get e (length (net_log w)) product (Some a))"
  then show "asset_attempts e a product (attempt # attempts) positions w
           = asset_attempts e a product attempts positions (after_attempt w product (Some a))"
    by (rule asset_attempts_failed)
next
  assume "failed (requests_get e (length (net_log w)) product None)
       \<and> failed (requests_get e (length (net_log w) + 1) product None)
       \<and> failed (requests_get e (length (net_log w) + 2) product None)"
  then show "bulk_attempts e product (range_py 3) all_positions w =
            (Completed, all_positions,
             w\<lparr>clock_reads := clock_reads w + 3,
               net_log := net_log w @ replicate 3 (GetPosition product None)\<rparr>)"
    by (simp add: bulk_attempts_all_failed)
next
  assume "failed (requests_get e (length (net_log w)) product (Some a))
       \<and> failed (requests_get e (length (net_log w) + 1) product (Some a))"
  then show "asset_attempts e a product (range_py 2) positions w =
            (Completed, positions,
             w\<lparr>clock_reads := clock_reads w + 2,
               net_log := net_log w @ replicate 2 (GetPosition product (Some a))\<rparr>)"
    by (simp add: asset_attempts_all_failed)
qed

text \<open>
  Claim C10. In \<open>_get_all_simple_earn_positions\<close>, when all three attempts on the
  flexible endpoint fail, the result is exactly what the locked endpoint's loop
  yields; and when all three attempts on the locked endpoint fail, the result is
  exactly the positions the flexible endpoint's loop obtained.
\<close>

theorem bulk_endpoint_failure_keeps_other:
  "(failed (requests_get e (length (net_log w)) FLEXIBLE None)
    \<and> failed (requests_get e (length (net_log w) + 1) FLEXIBLE None)
    \<and> failed (requests_get e (length (net_log w) + 2) FLEXIBLE None)
    \<longrightarrow> get_all_simple_earn_positions e w =
         (case bulk_attempts e LOCKED (range_py 3) []
                 (w\<lparr>clock_reads := clock_reads w + 3,
                    net_log := net_log w @ replicate 3 (GetPosition FLEXIBLE None)\<rparr>) of
            (c, positions, w') \<Rightarrow> (positions, w')))
   \<and> (bulk_attempts e FLEXIBLE (range_py 3) [] w = (c, positions, w1)
      \<and> failed (requests_get e (length (net_log w1)) LOCKED None)
      \<and> failed (requests_get e (length (net_log w1) + 1) LOCKED None)
      \<and> failed (requests_get e (length (net_log w1) + 2) LOCKED None)
      \<longrightarrow> fst (get_all_simple_earn_positions e w) = positions)"
proof (intro conjI impI)
  assume "failed (requests_get e (length (net_log w)) FLEXIBLE None)
    \<and> failed (requests_get e (length (net_log w) + 1) FLEXIBLE None)
    \<and> failed (requests_get e (length (net_log w) + 2) FLEXIBLE None)"
  then have "bulk_attempts e FLEXIBLE (range_py 3) [] w =
            (Completed, [],
             w\<lparr>clock_reads := clock_reads w + 3,
               net_log := net_log w @ replicate 3 (GetPosition FLEXIBLE None)\<rparr>)"
    by (simp add: bulk_attempts_all_failed)
  then show "get_all_simple_earn_positions e w =
         (case bulk_attempts e LOCKED (range_py 3) []
                 (w\<lparr>clock_reads := clock_reads w + 3,
                    net_log := net_log w @ replicate 3 (GetPosition FLEXIBLE None)\<rparr>) of
            (c, positions, w') \<Rightarrow> (positions, w'))"
    by (simp add: get_all_simple_earn_positions_def split: prod.splits)
next
  assume h: "bulk_attempts e FLEXIBLE (range_py 3) [] w = (c, positions, w1)
      \<and> failed (requests_get e (length (net_log w1)) LOCKED None)
      \<and> failed (requests_get e (length (net_log w1) + 1) LOCKED None)
      \<and> failed (requests_get e (length (net_log w1) + 2) LOCKED None)"
  then have "bulk_attempts e LOCKED (range_py 3) positions w1 =
            (Completed, positions,
             w1\<lparr>clock_reads := clock_reads w1 + 3,
               net_log := net_log w1 @ replicate 3 (GetPosition LOCKED None)\<rparr>)"
    by (simp add: bulk_attempts_all_failed)
  with h show "fst (get_all_simple_earn_positions e w) = positions"
    by (simp add: get_all_simple_earn_positions_def)
qed


lemma flaky_env_down: "requests_get flaky_env n LOCKED x = RequestException"
  by (simp add: flaky_env_def)

lemma locked_only_env_locked: "requests_get locked_only_env n LOCKED x = Response 200 (Json [btc_row])"
  by (simp add: locked_only_env_def)

lemma locked_only_env_flexible: "requests_get locked_only_env n FLEXIBLE x = Response 503 BadBody"
  by (simp add: locked_only_env_def)

lemma garbled_env_reply: "requests_get garbled_env n product x = Response 200 JSONDecodeError"
  by (simp add: garbled_env_def garbled_def)

text \<open>
  The claim C8 as stated fails: in \<open>garbled_env\<close> every reply has status 200 and no
  call raises a network error, yet the bulk loop sends three requests to the
  flexible endpoint and the specific search two, because \<open>response.json()\<close> rejects
  each body with a \<open>RequestException\<close>.
\<close>

theorem retry_on_undecodable_200_reply:
  "requests_get garbled_env 0 FLEXIBLE None = Response 200 JSONDecodeError
   \<and> requests_get garbled_env 1 FLEXIBLE None = Response 200 JSONDecodeError
   \<and> requests_get garbled_env 2 FLEXIBLE None = Response 200 JSONDecodeError
   \<and> net_log (snd (snd (bulk_attempts garbled_env FLEXIBLE (range_py 3) [] initial_world)))
       = [GetPosition FLEXIBLE None, GetPosition FLEXIBLE None, GetPosition FLEXIBLE None]
   \<and> requests_get garbled_env 0 FLEXIBLE (Some ''BTC'') = Response 200 JSONDecodeError
   \<and> requests_get garbled_env 1 FLEXIBLE (Some ''BTC'') = Response 200 JSONDecodeError
   \<and> net_log (snd (snd (asset_attempts garbled_env ''BTC'' FLEXIBLE (range_py 2) []
                           initial_world)))
       = [GetPosition FLEXIBLE (Some ''BTC''), GetPosition FLEXIBLE (Some ''BTC'')]"
  by (simp add: garbled_env_reply range_3 range_2 bulk_attempts.simps asset_attempts.simps
      time_time_def call_requests_get_def initial_world_def)

theorem retry_attempts_bounded_witness:
  "\<not> failed (requests_get locked_only_env (length (net_log initial_world)) LOCKED None)
   \<and> count_list
       (net_log (snd (snd (bulk_attempts locked_only_env LOCKED (0 # [1, 2]) [] initial_world))))
       (GetPosition LOCKED None)
     = count_list (net_log initial_world) (GetPosition LOCKED None) + 1
   \<and> \<not> failed (requests_get locked_only_env (length (net_log initial_world)) LOCKED
                  (Some ''BTC''))
   \<and> count_list
       (net_log (snd (snd (asset_attempts locked_only_env ''BTC'' LOCKED (0 # [1]) []
                             initial_world))))
       (GetPosition LOCKED (Some ''BTC''))
     = count_list (net_log initial_world) (GetPosition LOCKED (Some ''BTC'')) + 1
   \<and> failed (requests_get garbled_env (length (net_log initial_world)) FLEXIBLE None)
   \<and> bulk_attempts garbled_env FLEXIBLE (0 # [1, 2]) [] initial_world
       = bulk_attempts garbled_env FLEXIBLE [1, 2] [] (after_attempt initial_world FLEXIBLE None)
   \<and> failed (requests_get garbled_env (length (net_log initial_world)) FLEXIBLE (Some ''BTC''))
   \<and> asset_attempts garbled_env ''BTC'' FLEXIBLE (0 # [1]) [] initial_world
       = asset_attempts garbled_env ''BTC'' FLEXIBLE [1] []
           (after_attempt initial_world FLEXIBLE (Some ''BTC''))
   \<and> failed (requests_get flaky_env (length (net_log initial_world)) LOCKED None)
   \<and> failed (requests_get flaky_env (length (net_log initial_world) + 1) LOCKED None)
   \<and> failed (requests_get flaky_env (length (net_log initial_world) + 2) LOCKED None)
   \<and> bulk_attempts flaky_env LOCKED (range_py 3) [] initial_world =
        (Completed, [],
         initial_world\<lparr>clock_reads := clock_reads initial_world + 3,
           net_log := net_log initial_world @ replicate 3 (GetPosition LOCKED None)\<rparr>)
   \<and> failed (requests_get flaky_env (length (net_log initial_world)) LOCKED (Some ''SOL''))
   \<and> failed (requests_get flaky_env (length (net_log initial_world) + 1) LOCKED (Some ''SOL''))
   \<and> asset_attempts flaky_env ''SOL'' LOCKED (range_py 2) [] initial_world =
        (Completed, [],
         initial_world\<lparr>clock_reads := clock_reads initial_world + 2,
           net_log := net_log initial_world @ replicate 2 (GetPosition LOCKED (Some ''SOL''))\<rparr>)
   \<and> count_list (net_log (snd (get_all_simple_earn_positions flaky_env initial_world)))
        (GetPosition FLEXIBLE None)
      \<le> count_list (net_log initial_world) (GetPosition FLEXIBLE None) + 3
   \<and> count_list (net_log (snd (get_all_simple_earn_positions flaky_env initial_world)))
        (GetPosition FLEXIBLE None) = 3"
proof -
  note t1 = retry_attempts_bounded [where e = locked_only_env and w = initial_world
      and product = LOCKED and a = "''BTC''" and attempt = 0 and attempts = "[1, 2]"
      and all_positions = "[]"]
  note t2 = retry_attempts_bounded [where e = locked_only_env and w = initial_world
      and product = LOCKED and a = "''BTC''" and attempt = 0 and attempts = "[1]"
      and positions = "[]"]
  note t3 = retry_attempts_bounded [where e = flaky_env and w = initial_world
      and product = LOCKED and a = "''SOL''" and all_positions = "[]" and positions = "[]"]
  note t4 = retry_attempts_bounded [where e = flaky_env and w = initial_world
      and product = FLEXIBLE]
  note t5 = retry_attempts_bounded [where e = garbled_env and w = initial_world
      and product = FLEXIBLE and a = "''BTC''" and attempt = 0 and attempts = "[1, 2]"
      and all_positions = "[]"]
  note t6 = retry_attempts_bounded [where e = garbled_env and w = initial_world
      and product = FLEXIBLE and a = "''BTC''" and attempt = 0 and attempts = "[1]"
      and positions = "[]"]
  have three: "count_list (net_log (snd (get_all_simple_earn_positions flaky_env initial_world)))
        (GetPosition FLEXIBLE None) = 3"
    by (simp add: flaky_log)
  have f: "failed (requests_get flaky_env n LOCKED x)" for n x
    by (simp add: flaky_env_down)
  have g: "failed (requests_get garbled_env n product x)" for n product x
    by (simp add: garbled_env_reply)
  have r: "\<not> failed (requests_get locked_only_env n LOCKED x)" for n x
    by (simp add: locked_only_env_locked)
  have c1: "count_list
       (net_log (snd (snd (bulk_attempts locked_only_env LOCKED (0 # [1, 2]) [] initial_world))))
       (GetPosition LOCKED None)
     = count_list (net_log initial_world) (GetPosition LOCKED None) + 1"
    by (rule t1 [THEN conjunct2, THEN conjunct2, THEN conjunct1, THEN mp, OF r])
  have c2: "count_list
       (net_log (snd (snd (asset_attempts locked_only_env ''BTC'' LOCKED (0 # [1]) []
                             initial_world))))
       (GetPosition LOCKED (Some ''BTC''))
     = count_list (net_log initial_world) (GetPosition LOCKED (Some ''BTC'')) + 1"
    by (rule t2 [THEN conjunct2, THEN conjunct2, THEN conjunct2, THEN conjunct1, THEN mp, OF r])
  have s1: "bulk_attempts garbled_env FLEXIBLE (0 # [1, 2]) [] initial_world
       = bulk_attempts garbled_env FLEXIBLE [1, 2] [] (after_attempt initial_world FLEXIBLE None)"
    by (rule t5 [THEN conjunct2, THEN conjunct2, THEN conjunct2, THEN conjunct2, THEN conjunct1,
          THEN mp, OF g])
  have s2: "asset_attempts garbled_env ''BTC'' FLEXIBLE (0 # [1]) [] initial_world
       = asset_attempts garbled_env ''BTC'' FLEXIBLE [1] []
           (after_attempt initial_world FLEXIBLE (Some ''BTC''))"
    by (rule t6 [THEN conjunct2, THEN conjunct2, THEN conjunct2, THEN conjunct2, THEN conjunct2,
          THEN conjunct1, THEN mp, OF g])
  have c3: "bulk_attempts flaky_env LOCKED (range_py 3) [] initial_world =
        (Completed, [],
         initial_world\<lparr>clock_reads := clock_reads initial_world + 3,
           net_log := net_log initial_world @ replicate 3 (GetPosition LOCKED None)\<rparr>)"
    by (rule t3 [THEN conjunct2, THEN conjunct2, THEN conjunct2, THEN conjunct2, THEN conjunct2,
          THEN conjunct2, THEN conjunct1, THEN mp, OF conjI [OF f conjI [OF f f]]])
  have c4: "asset_attempts flaky_env ''SOL'' LOCKED (range_py 2) [] initial_world =
        (Completed, [],
         initial_world\<lparr>clock_reads := clock_reads initial_world + 2,
           net_log := net_log initial_world @ replicate 2 (GetPosition LOCKED (Some ''SOL''))\<rparr>)"
    by (rule t3 [THEN conjunct2, THEN conjunct2, THEN conjunct2, THEN conjunct2, THEN conjunct2,
          THEN conjunct2, THEN conjunct2, THEN mp, OF conjI [OF f f]])
  have c5: "count_list (net_log (snd (get_all_simple_earn_positions flaky_env initial_world)))
        (GetPosition FLEXIBLE None)
      \<le> count_list (net_log initial_world) (GetPosition FLEXIBLE None) + 3"
    using t4 by (rule conjunct1)
  show ?thesis
    by (intro conjI r f g c1 c2 s1 s2 c3 c4 c5 three)
qed

lemma flaky_flexible:
  "fst (snd (bulk_attempts flaky_env FLEXIBLE (range_py 3) [] initial_world))
     = [earn_holding ''BTC'' 2 50000 FLEXIBLE 1]"
  by (simp add: eval_defs flaky_env_def)

theorem bulk_endpoint_failure_keeps_other_witness:
  "failed (requests_get locked_only_env (length (net_log initial_world)) FLEXIBLE None)
   \<and> failed (requests_get locked_only_env (length (net_log initial_world) + 1) FLEXIBLE None)
   \<and> failed (requests_get locked_only_env (length (net_log initial_world) + 2) FLEXIBLE None)
   \<and> get_all_simple_earn_positions locked_only_env initial_world =
         (case bulk_attempts locked_only_env LOCKED (range_py 3) []
                 (initial_world\<lparr>clock_reads := clock_reads initial_world + 3,
                    net_log := net_log initial_world @ replicate 3 (GetPosition FLEXIBLE None)\<rparr>) of
            (c, positions, w') \<Rightarrow> (positions, w'))
   \<and> fst (get_all_simple_earn_positions locked_only_env initial_world)
       = [earn_holding ''BTC'' 2 50000 LOCKED 1]
   \<and> fst (snd (bulk_attempts flaky_env FLEXIBLE (range_py 3) [] initial_world))
       = [earn_holding ''BTC'' 2 50000 FLEXIBLE 1]
   \<and> failed (requests_get flaky_env
        (length (net_log (snd (snd (bulk_attempts flaky_env FLEXIBLE (range_py 3) [] initial_world)))))
        LOCKED None)
   \<and> failed (requests_get flaky_env
        (length (net_log (snd (snd (bulk_attempts flaky_env FLEXIBLE (range_py 3) [] initial_world)))) + 1)
        LOCKED None)
   \<and> failed (requests_get flaky_env
        (length (net_log (snd (snd (bulk_attempts flaky_env FLEXIBLE (range_py 3) [] initial_world)))) + 2)
        LOCKED None)
   \<and> fst (get_all_simple_earn_positions flaky_env initial_world)
       = [earn_holding ''BTC'' 2 50000 FLEXIBLE 1]"
proof -
  let ?r = "bulk_attempts flaky_env FLEXIBLE (range_py 3) [] initial_world"
  note t1 = bulk_endpoint_failure_keeps_other [where e = locked_only_env and w = initial_world]
  note t2 = bulk_endpoint_failure_keeps_other [where e = flaky_env and w = initial_world and c = "fst ?r"
      and positions = "fst (snd ?r)" and ?w1.0 = "snd (snd ?r)"]
  have p: "?r = (fst ?r, fst (snd ?r), snd (snd ?r))" by simp
  have f1: "failed (requests_get locked_only_env n FLEXIBLE x)" for n x
    by (simp add: locked_only_env_flexible)
  have f2: "failed (requests_get flaky_env n LOCKED x)" for n x
    by (simp add: flaky_env_down)
  have a: "get_all_simple_earn_positions locked_only_env initial_world =
         (case bulk_attempts locked_only_env LOCKED (range_py 3) []
                 (initial_world\<lparr>clock_reads := clock_reads initial_world + 3,
                    net_log := net_log initial_world @ replicate 3 (GetPosition FLEXIBLE None)\<rparr>) of
            (c, positions, w') \<Rightarrow> (positions, w'))"
    by (rule t1 [THEN conjunct1, THEN mp, OF conjI [OF f1 conjI [OF f1 f1]]])
  have b: "fst (get_all_simple_earn_positions flaky_env initial_world) = fst (snd ?r)"
    by (rule t2 [THEN conjunct2, THEN mp, OF conjI [OF p conjI [OF f2 conjI [OF f2 f2]]]])
  have b': "fst (get_all_simple_earn_positions flaky_env initial_world)
      = [earn_holding ''BTC'' 2 50000 FLEXIBLE 1]"
    using b flaky_flexible by (rule trans)
  show ?thesis
    by (intro conjI f1 f2 a b' locked_only_all flaky_flexible)
qed

section \<open>Reconciliation of the two discovery strategies\<close>

lemma unique_loop_dedup_first:
  "unique_loop items unique_earn_data seen_assets
     = unique_earn_data @ dedup_first (filter (\<lambda>y. asset y \<notin> seen_assets) items)"
proof (induction items arbitrary: unique_earn_data seen_assets)
  case Nil
  then show ?case by simp
next
  case (Cons item items)
  have f: "filter (\<lambda>y. asset y \<noteq> asset item) (filter (\<lambda>y. asset y \<notin> seen_assets) items)
      = filter (\<lambda>y. asset y \<notin> insert (asset item) seen_assets) items"
    by (induction items) auto
  show ?case by (simp add: Cons.IH f del: filter_filter)
qed

lemma set_dedup_first: "set (dedup_first xs) \<subseteq> set xs"
  by (induction xs rule: dedup_first.induct) auto

lemma distinct_dedup_first: "distinct (map asset (dedup_first xs))"
proof (induction xs rule: dedup_first.induct)
  case 1
  then show ?case by simp
next
  case (2 x xs)
  have "asset x \<notin> asset ` set (dedup_first (filter (\<lambda>y. asset y \<noteq> asset x) xs))"
    using set_dedup_first [of "filter (\<lambda>y. asset y \<noteq> asset x) xs"] by auto
  with 2 show ?case by simp
qed

lemma dedup_first_append:
  "dedup_first (A @ B)
     = dedup_first A @ dedup_first (filter (\<lambda>y. asset y \<notin> asset ` set A) B)"
proof (induction A arbitrary: B rule: dedup_first.induct)
  case 1
  then show ?case by simp
next
  case (2 x xs)
  let ?xs' = "filter (\<lambda>y. asset y \<noteq> asset x) xs"
  have f: "filter (\<lambda>y. asset y \<notin> asset ` set ?xs') (filter (\<lambda>y. asset y \<noteq> asset x) B)
      = filter (\<lambda>y. asset y \<notin> asset ` set (x # xs)) B"
    by (induction B) auto
  let ?B' = "filter (\<lambda>y. asset y \<noteq> asset x) B"
  have "dedup_first ((x # xs) @ B) = x # dedup_first (?xs' @ ?B')"
    by simp
  also have "\<dots> = x # (dedup_first ?xs'
      @ dedup_first (filter (\<lambda>y. asset y \<notin> asset ` set ?xs') ?B'))"
    by (simp only: "2.IH")
  also have "\<dots> = x # (dedup_first ?xs'
      @ dedup_first (filter (\<lambda>y. asset y \<notin> asset ` set (x # xs)) B))"
    by (simp only: f)
  also have "\<dots> = dedup_first (x # xs)
      @ dedup_first (filter (\<lambda>y. asset y \<notin> asset ` set (x # xs)) B)"
    by (simp only: dedup_first.simps append_Cons)
  finally show ?case .
qed

lemma specific_loop_append:
  "specific_loop e missing earn_data w
     = (earn_data @ fst (specific_loop e missing [] w), snd (specific_loop e missing [] w))"
proof (induction missing arbitrary: earn_data w)
  case Nil
  then show ?case by simp
next
  case (Cons a missing)
  obtain sp w' where g: "get_simple_earn_asset_positions e w a = (sp, w')"
    by (cases "get_simple_earn_asset_positions e w a")
  show ?case
    using Cons.IH [of "earn_data @ sp" w'] Cons.IH [of sp w'] Cons.IH [of earn_data w']
      Cons.IH [of "[]" w']
    by (simp add: g)
qed

lemma collect_earn_data_strategies:
  "fst (collect_earn_data e w) = strategy_A e w @ strategy_B e w"
proof -
  obtain A w1 where g: "get_all_simple_earn_positions e w = (A, w1)"
    by (cases "get_all_simple_earn_positions e w")
  have "fst (specific_loop e (filter (\<lambda>a. a \<notin> set (map asset A)) known_assets) A w1)
      = A @ fst (specific_loop e (filter (\<lambda>a. a \<notin> set (map asset A)) known_assets) [] w1)"
    using specific_loop_append [of e _ A w1] by simp
  then show ?thesis
    by (cases "A = []") (simp_all add: collect_earn_data_def strategy_A_def strategy_B_def g)
qed

text \<open>
  Claim C6. \<open>_get_earn_data\<close> returns the reconciliation of the two strategies'
  results as the specification defines it: Strategy A's results followed by Strategy
  B's, with every entry dropped whose asset symbol occurred earlier. For every pair
  of lists the source's loop computes that reconciliation; its result has no two
  entries with the same symbol, and an entry it keeps is an entry of A, or an entry
  of B whose symbol no entry of A has.
\<close>

theorem earn_data_reconciled:
  "fst (get_earn_data e w) = reconcile_spec (strategy_A e w) (strategy_B e w)
   \<and> unique_loop (A @ B) [] {} = reconcile_spec A B
   \<and> distinct (map asset (reconcile_spec A B))
   \<and> (\<forall>x \<in> set (reconcile_spec A B). x \<in> set A \<or> (x \<in> set B \<and> asset x \<notin> asset ` set A))"
proof (intro conjI)
  have u: "unique_loop xs [] {} = dedup_first xs" for xs
    by (simp add: unique_loop_dedup_first)
  show "fst (get_earn_data e w) = reconcile_spec (strategy_A e w) (strategy_B e w)"
    using collect_earn_data_strategies [of e w]
    by (cases "collect_earn_data e w") (simp add: get_earn_data_def reconcile_spec_def u)
  show "unique_loop (A @ B) [] {} = reconcile_spec A B"
    by (simp add: reconcile_spec_def u)
  show "distinct (map asset (reconcile_spec A B))"
    by (simp add: reconcile_spec_def distinct_dedup_first)
  show "\<forall>x \<in> set (reconcile_spec A B). x \<in> set A \<or> (x \<in> set B \<and> asset x \<notin> asset ` set A)"
  proof
    fix x assume "x \<in> set (reconcile_spec A B)"
    then have "x \<in> set (dedup_first A)
        \<or> x \<in> set (dedup_first (filter (\<lambda>y. asset y \<notin> asset ` set A) B))"
      by (simp add: reconcile_spec_def dedup_first_append)
    then show "x \<in> set A \<or> (x \<in> set B \<and> asset x \<notin> asset ` set A)"
      using set_dedup_first [of A]
        set_dedup_first [of "filter (\<lambda>y. asset y \<notin> asset ` set A) B"] by auto
  qed
qed

lemma example_merge:
  "unique_loop ([position ''BTC'' 1, position ''ETH'' 2] @ [position ''ETH'' 5, position ''SOL'' 3])
      [] {}
     = [position ''BTC'' 1, position ''ETH'' 2, position ''SOL'' 3]"
  by (simp add: position_def earn_holding_def)

subsection \<open>A run on \<open>full_env\<close>\<close>

lemma full_env_sel:
  "clock full_env k = 1000"
  "get_account full_env n = Some [ldo_balance, xyz_balance, btc_balance]"
  "get_symbol_ticker full_env n symbol = demo_ticker n symbol"
  "requests_get full_env n product None =
           (if product = FLEXIBLE then Response 200 (Json [btc_row, eth_row])
            else Response 200 (Json [eth_locked_row]))"
  "requests_get full_env n product (Some a) =
     (if a = ''SOL'' then
           (if product = FLEXIBLE then Response 200 (Json [sol_row])
            else Response 200 (Json [sol_locked_row]))
         else RequestException)"
  by (simp_all add: full_env_def)

lemmas price_defs = time_time_def get_current_price_def cached_price_def fetch_price_def
  call_get_symbol_ticker_def demo_ticker_def

lemma full_env_spot: "get_spot_data full_env initial_world = ([spot_holding ''BTC'' (3 / 2) 50000], world1)"
  by (simp add: get_spot_data_def call_get_account_def full_env_sel price_defs
      ldo_balance_def xyz_balance_def btc_balance_def startswith_def initial_world_def world1_def)

lemma full_env_bulk:
  "fst (get_all_simple_earn_positions full_env world1) =
     [earn_holding ''BTC'' 2 50000 FLEXIBLE 1, earn_holding ''ETH'' 1 3000 FLEXIBLE 0,
        earn_holding ''ETH'' 2 3000 LOCKED 5]"
  by (simp add: get_all_simple_earn_positions_def range_3 bulk_attempts.simps call_requests_get_def
      full_env_sel price_defs btc_row_def eth_row_def eth_locked_row_def world1_def)

lemma price_cache_skip_world: "price_cache (skip_world w a) = price_cache w"
  by (simp add: skip_world_def)

lemma asset_positions_all_failed:
  assumes "\<And>n product. failed (requests_get e n product (Some a))"
  shows "get_simple_earn_asset_positions e w a = ([], skip_world w a)"
proof -
  have 1: "asset_attempts e a FLEXIBLE (range_py 2) [] w =
     (Completed, [],
      w\<lparr>clock_reads := clock_reads w + 2,
        net_log := net_log w @ replicate 2 (GetPosition FLEXIBLE (Some a))\<rparr>)"
    by (rule asset_attempts_all_failed) (rule assms)+
  have 2: "asset_attempts e a LOCKED (range_py 2) [] w' =
     (Completed, [],
      w'\<lparr>clock_reads := clock_reads w' + 2,
        net_log := net_log w' @ replicate 2 (GetPosition LOCKED (Some a))\<rparr>)" for w'
    by (rule asset_attempts_all_failed) (rule assms)+
  show ?thesis
    by (simp add: get_simple_earn_asset_positions_def 1 2)
      (simp add: skip_world_def numeral_2_eq_2)
qed

lemma specific_loop_skip:
  assumes "\<And>n product. failed (requests_get e n product (Some a))"
  shows "specific_loop e (a # missing) earn_data w = specific_loop e missing earn_data (skip_world w a)"
  by (simp add: asset_positions_all_failed [OF assms])

lemma specific_loop_found:
  assumes "fst (get_simple_earn_asset_positions e w a) = sp" and "sp \<noteq> []"
  shows "specific_loop e (a # missing) earn_data w
       = specific_loop e missing (earn_data @ sp) (snd (get_simple_earn_asset_positions e w a))"
  using assms by (simp add: split_beta)

lemma full_env_sol:
  assumes "price_cache w ''SOL'' = None"
  shows "fst (get_simple_earn_asset_positions full_env w ''SOL'')
       = [earn_holding ''SOL'' 30 100 FLEXIBLE 0, earn_holding ''SOL'' 4 100 LOCKED 0]"
  using assms
  by (simp add: get_simple_earn_asset_positions_def range_2 asset_attempts.simps
      call_requests_get_def full_env_sel price_defs sol_row_def sol_locked_row_def)

lemma full_env_failed:
  "a \<noteq> ''SOL'' \<Longrightarrow> failed (requests_get full_env n product (Some a))"
  by (simp add: full_env_sel)

lemma full_env_bulk_cache:
  "price_cache (snd (get_all_simple_earn_positions full_env world1)) ''SOL'' = None"
  by (simp add: get_all_simple_earn_positions_def range_3 bulk_attempts.simps call_requests_get_def
      full_env_sel price_defs btc_row_def eth_row_def eth_locked_row_def world1_def)

lemma full_env_B:
  "strategy_B full_env world1
     = [earn_holding ''SOL'' 30 100 FLEXIBLE 0, earn_holding ''SOL'' 4 100 LOCKED 0]"
proof -
  let ?w2 = "snd (get_all_simple_earn_positions full_env world1)"
  let ?sol = "[earn_holding ''SOL'' 30 100 FLEXIBLE 0, earn_holding ''SOL'' 4 100 LOCKED 0]"
  have m: "filter (\<lambda>a. a \<notin> set (map asset (fst (get_all_simple_earn_positions full_env world1))))
        known_assets
      = [''ARB'', ''BNB'', ''C'', ''ERA'', ''HAEDAL'', ''HOME'', ''HUMA'', ''HYPER'', ''OP'',
         ''SOL'', ''ONDO'', ''TAO'']"
    by (simp add: full_env_bulk known_assets_def asset_earn_holding)
  have s: "specific_loop full_env (a # missing) acc w
      = specific_loop full_env missing acc (skip_world w a)" if "a \<noteq> ''SOL''" for a missing acc w
    by (rule specific_loop_skip) (rule full_env_failed [OF that])
  have f: "specific_loop full_env (''SOL'' # missing) acc w
      = specific_loop full_env missing (acc @ ?sol)
          (snd (get_simple_earn_asset_positions full_env w ''SOL''))"
    if "price_cache w ''SOL'' = None" for missing acc w
    by (rule specific_loop_found [OF full_env_sol [OF that]]) simp
  have "fst (specific_loop full_env
      [''ARB'', ''BNB'', ''C'', ''ERA'', ''HAEDAL'', ''HOME'', ''HUMA'', ''HYPER'', ''OP'',
         ''SOL'', ''ONDO'', ''TAO''] [] ?w2) = ?sol"
    by (simp add: s f price_cache_skip_world full_env_bulk_cache del: specific_loop.simps(2))
  then show ?thesis
    unfolding strategy_B_def split_beta m .
qed

lemma full_env_earn:
  "fst (get_earn_data full_env world1) =
     [earn_holding ''BTC'' 2 50000 FLEXIBLE 1, earn_holding ''ETH'' 1 3000 FLEXIBLE 0,
      earn_holding ''SOL'' 30 100 FLEXIBLE 0]"
proof -
  have "fst (get_earn_data full_env world1)
      = dedup_first (strategy_A full_env world1 @ strategy_B full_env world1)"
    using collect_earn_data_strategies [of full_env world1]
    by (cases "collect_earn_data full_env world1")
      (simp add: get_earn_data_def unique_loop_dedup_first)
  then show ?thesis
    by (simp add: strategy_A_def full_env_bulk full_env_B asset_earn_holding)
qed

lemma full_env_portfolio:
  "fst (get_portfolio_data full_env initial_world) =
     Inr [earn_holding ''BTC'' 2 50000 FLEXIBLE 1, spot_holding ''BTC'' (3 / 2) 50000,
          earn_holding ''ETH'' 1 3000 FLEXIBLE 0, earn_holding ''SOL'' 30 100 FLEXIBLE 0]"
proof -
  have "fst (get_portfolio_data full_env initial_world) =
      Inr (sort_reverse current_value (filtered_data
        (spot_holding ''BTC'' (3 / 2) 50000 # fst (get_earn_data full_env world1))))"
    by (simp add: get_portfolio_data_def full_env_spot split_beta)
  then show ?thesis
    by (simp add: full_env_earn sort_reverse_def filtered_data_def valid_item_def
        earn_holding_def spot_holding_def)
qed

section \<open>The aggregated portfolio\<close>

subsection \<open>Sorting\<close>

lemma sort_reverse_sorted:
  "Suc i < length (sort_reverse key xs) \<Longrightarrow>
   key (sort_reverse key xs ! Suc i) \<le> key (sort_reverse key xs ! i)"
proof -
  assume i: "Suc i < length (sort_reverse key xs)"
  let ?ys = "map key (sort_reverse key xs)"
  have "sorted (rev ?ys)"
    by (simp add: sort_reverse_def rev_map)
  then have "\<forall>i. Suc i < length ?ys \<longrightarrow> ?ys ! Suc i \<le> ?ys ! i"
    by (simp only: sorted_rev_iff_nth_Suc)
  with i show ?thesis by simp
qed

lemma sort_reverse_stable:
  "filter (\<lambda>y. key y = k) (sort_reverse key xs) = filter (\<lambda>y. key y = k) xs"
proof -
  have "filter (\<lambda>y. key y = k) (sort_reverse key xs)
      = rev (filter (\<lambda>y. key y = k) (sort_key key (rev xs)))"
    by (simp add: sort_reverse_def rev_filter)
  also have "\<dots> = rev (filter (\<lambda>y. key y = k) (rev xs))"
    by (simp only: sort_key_stable)
  also have "\<dots> = filter (\<lambda>y. key y = k) xs"
    by (simp add: rev_filter)
  finally show ?thesis .
qed

lemma mset_sort_reverse: "mset (sort_reverse key xs) = mset xs"
  by (simp add: sort_reverse_def)

lemma get_portfolio_data_eq:
  "fst (get_portfolio_data e w) =
     Inr (sort_reverse current_value
       (filtered_data (fst (get_spot_data e w) @ fst (get_earn_data e (snd (get_spot_data e w))))))"
  by (simp add: get_portfolio_data_def split_beta)

text \<open>
  Claim C7. The list \<open>get_portfolio_data\<close> returns is in descending order of
  \<open>current_value\<close> (each entry's value is at most its predecessor's), and the sort is
  stable: for every value, the entries with that value appear in the order they had
  in the validated and filtered list before sorting. The returned list is a
  permutation of that list.
\<close>

theorem portfolio_sorted_descending_stable:
  assumes "fst (get_portfolio_data e w) = Inr portfolio"
  shows "(\<forall>i. Suc i < length portfolio
            \<longrightarrow> current_value (portfolio ! Suc i) \<le> current_value (portfolio ! i))
       \<and> (\<forall>v. filter (\<lambda>h. current_value h = v) portfolio
             = filter (\<lambda>h. current_value h = v)
                 (filtered_data (fst (get_spot_data e w)
                    @ fst (get_earn_data e (snd (get_spot_data e w))))))
       \<and> mset portfolio
           = mset (filtered_data (fst (get_spot_data e w)
                    @ fst (get_earn_data e (snd (get_spot_data e w)))))"
proof -
  let ?xs = "filtered_data (fst (get_spot_data e w) @ fst (get_earn_data e (snd (get_spot_data e w))))"
  have p: "portfolio = sort_reverse current_value ?xs"
    using assms by (simp add: get_portfolio_data_eq)
  show ?thesis
    unfolding p
    by (intro conjI allI impI sort_reverse_sorted sort_reverse_stable mset_sort_reverse)
qed

subsection \<open>Total failure of both sources\<close>

lemma bulk_attempts_never_answered:
  assumes "\<And>n. failed (requests_get e n product None)"
  shows "fst (snd (bulk_attempts e product attempts all_positions w)) = all_positions"
proof (induction attempts arbitrary: w)
  case Nil
  then show ?case by (simp add: bulk_attempts_nil)
next
  case (Cons attempt attempts)
  show ?case by (simp add: bulk_attempts_failed [OF assms] Cons.IH)
qed

lemma get_all_never_answered:
  assumes "\<And>n product. failed (requests_get e n product None)"
  shows "fst (get_all_simple_earn_positions e w) = []"
proof -
  have a: "fst (snd (bulk_attempts e product attempts ps w')) = ps" for product attempts ps w'
    by (rule bulk_attempts_never_answered) (rule assms)
  show ?thesis
    by (simp add: get_all_simple_earn_positions_def split_beta a)
qed

lemma specific_loop_never_answered:
  assumes "\<And>n product a. failed (requests_get e n product (Some a))"
  shows "fst (specific_loop e missing earn_data w) = earn_data"
proof (induction missing arbitrary: w)
  case Nil
  then show ?case by simp
next
  case (Cons a missing)
  have "specific_loop e (a # missing) earn_data w
      = specific_loop e missing earn_data (skip_world w a)"
    by (rule specific_loop_skip) (rule assms)
  then show ?case by (simp only: Cons.IH)
qed

lemma get_earn_data_never_answered:
  assumes "\<And>n product a. failed (requests_get e n product a)"
  shows "fst (get_earn_data e w) = []"
proof -
  obtain A w1 where g: "get_all_simple_earn_positions e w = (A, w1)"
    by (cases "get_all_simple_earn_positions e w")
  have "fst (get_all_simple_earn_positions e w) = []"
    by (rule get_all_never_answered) (rule assms)
  with g have A: "A = []" by simp
  have "fst (specific_loop e missing [] w1) = []" for missing
    by (rule specific_loop_never_answered) (rule assms)
  then show ?thesis
    by (simp add: get_earn_data_def collect_earn_data_def g A split_beta)
qed

lemma get_spot_data_raises:
  assumes "spot_fetch_raises e w"
  shows "fst (get_spot_data e w) = []"
  using assms
  by (auto simp add: spot_fetch_raises_def get_spot_data_def
      split: prod.splits option.splits completion.splits)

lemma total_failure_empty:
  assumes "spot_fetch_raises e w" and "\<And>n product a. failed (requests_get e n product a)"
  shows "fst (get_portfolio_data e w) = Inr []"
  by (simp add: get_portfolio_data_eq get_spot_data_raises [OF assms(1)]
      get_earn_data_never_answered [OF assms(2)] filtered_data_def sort_reverse_def)

text \<open>
  Claim C2, as amended. \<open>get_portfolio_data\<close> never ends with an exception; when the
  spot fetch fails as a whole and every position request of the earn fetch fails,
  it returns the empty list.
\<close>

theorem total_failure_returns_empty_list:
  "(\<forall>x. fst (get_portfolio_data e w) \<noteq> Inl x)
   \<and> (spot_fetch_raises e w \<and> (\<forall>n product a. failed (requests_get e n product a))
       \<longrightarrow> fst (get_portfolio_data e w) = Inr [])"
proof (intro conjI allI impI)
  fix x show "fst (get_portfolio_data e w) \<noteq> Inl x"
    by (simp add: get_portfolio_data_eq)
next
  assume "spot_fetch_raises e w \<and> (\<forall>n product a. failed (requests_get e n product a))"
  then show "fst (get_portfolio_data e w) = Inr []"
    by (simp add: total_failure_empty)
qed

subsection \<open>One entry per asset and silo\<close>

lemma source_spot_holding: "source (spot_holding a t p) = ''Spot''"
  by (simp add: spot_holding_def)

lemma source_earn_holding: "source (earn_holding a t p product r) = ''Simple Earn''"
  by (simp add: earn_holding_def)

lemma spot_loop_source:
  assumes "\<forall>h \<in> set spot_data. source h = ''Spot''"
  shows "\<forall>h \<in> set (fst (snd (spot_loop e bs spot_data w))). source h = ''Spot''"
  using assms
proof (induction bs arbitrary: spot_data w)
  case Nil
  then show ?case by simp
next
  case (Cons b bs)
  have ext: "\<forall>h \<in> set (spot_data @ [spot_holding a t p]). source h = ''Spot''" for a t p
    using Cons.prems by (simp add: source_spot_holding)
  show ?case
    using Cons.prems Cons.IH [OF Cons.prems] Cons.IH [OF ext]
    by (simp split: option.splits prod.splits)
qed

lemma spot_loop_distinct:
  assumes "distinct (map asset spot_data)"
    and "\<forall>h \<in> set spot_data. Some (asset h) \<notin> set (map bal_asset bs)"
    and "distinct (map bal_asset bs)"
  shows "distinct (map asset (fst (snd (spot_loop e bs spot_data w))))"
  using assms
proof (induction bs arbitrary: spot_data w)
  case Nil
  then show ?case by simp
next
  case (Cons b bs)
  have keep: "distinct (map asset (fst (snd (spot_loop e bs spot_data w'))))" for w'
    using Cons.prems by (intro Cons.IH) auto
  have ext: "distinct (map asset (fst (snd (spot_loop e bs (spot_data @ [spot_holding a t p]) w'))))"
    if "bal_asset b = Some a" for a t p w'
    using Cons.prems that by (intro Cons.IH) (auto simp add: asset_spot_holding)
  show ?case
    using Cons.prems(1) keep ext
    by (simp split: option.splits prod.splits)
qed

lemma get_spot_data_source: "\<forall>h \<in> set (fst (get_spot_data e w)). source h = ''Spot''"
proof -
  have "\<forall>h \<in> set sd. source h = ''Spot''" if "spot_loop e bs [] w1 = (c, sd, w2)"
    for bs w1 c sd w2
    using spot_loop_source [of "[]" e bs w1] that by simp
  then show ?thesis
    by (auto simp add: get_spot_data_def split: prod.splits option.splits completion.splits)
qed

lemma get_spot_data_distinct:
  assumes "\<forall>balances. get_account e (length (net_log w)) = Some balances
             \<longrightarrow> distinct (map bal_asset balances)"
  shows "distinct (map asset (fst (get_spot_data e w)))"
proof -
  have "distinct (map asset sd)"
    if "distinct (map bal_asset bs)" and "spot_loop e bs [] w1 = (c, sd, w2)" for bs w1 c sd w2
    using spot_loop_distinct [of "[]" bs e w1] that by simp
  then show ?thesis
    using assms
    by (auto simp add: get_spot_data_def call_get_account_def
        split: prod.splits option.splits completion.splits)
qed

lemma bulk_rows_source:
  assumes "\<forall>h \<in> set positions. source h = ''Simple Earn''"
  shows "\<forall>h \<in> set (fst (snd (bulk_rows e product rows positions w))). source h = ''Simple Earn''"
  using assms
proof (induction rows arbitrary: positions w)
  case Nil
  then show ?case by simp
next
  case (Cons pos rows)
  have ext: "\<forall>h \<in> set (positions @ [earn_holding a t p product r]). source h = ''Simple Earn''"
    for a t p r
    using Cons.prems by (simp add: source_earn_holding)
  show ?case
    using Cons.prems Cons.IH [OF Cons.prems] Cons.IH [OF ext]
    by (simp split: option.splits prod.splits)
qed

lemma asset_rows_source:
  assumes "\<forall>h \<in> set positions. source h = ''Simple Earn''"
  shows "\<forall>h \<in> set (fst (snd (asset_rows e a product rows positions w))). source h = ''Simple Earn''"
  using assms
proof (induction rows arbitrary: positions w)
  case Nil
  then show ?case by simp
next
  case (Cons pos rows)
  have ext: "\<forall>h \<in> set (positions @ [earn_holding a t p product r]). source h = ''Simple Earn''"
    for t p r
    using Cons.prems by (simp add: source_earn_holding)
  show ?case
    using Cons.prems Cons.IH [OF Cons.prems] Cons.IH [OF ext]
    by (simp split: option.splits prod.splits)
qed

lemma bulk_attempts_source:
  assumes "\<forall>h \<in> set all_positions. source h = ''Simple Earn''"
  shows "\<forall>h \<in> set (fst (snd (bulk_attempts e product attempts all_positions w))).
           source h = ''Simple Earn''"
proof (induction attempts arbitrary: w)
  case Nil
  then show ?case using assms by (simp add: bulk_attempts_nil)
next
  case (Cons attempt attempts)
  show ?case
  proof (cases "failed (requests_get e (length (net_log w)) product None)")
    case True
    then show ?thesis by (simp add: bulk_attempts_failed Cons.IH)
  next
    case False
    then obtain b where r: "requests_get e (length (net_log w)) product None = Response 200 b"
      and nb: "b \<noteq> JSONDecodeError"
      by (cases "requests_get e (length (net_log w)) product None") auto
    have "\<forall>h \<in> set ps. source h = ''Simple Earn''"
      if "bulk_rows e product rows [] w' = (c, ps, w2)" for rows w' c ps w2
      using bulk_rows_source [of "[]" e product rows w'] that by simp
    then show ?thesis
      using assms nb
      by (auto simp add: bulk_attempts_answered [OF r]
          split: body.splits prod.splits completion.splits)
  qed
qed

lemma asset_attempts_source:
  assumes "\<forall>h \<in> set positions. source h = ''Simple Earn''"
  shows "\<forall>h \<in> set (fst (snd (asset_attempts e a product attempts positions w))).
           source h = ''Simple Earn''"
proof (induction attempts arbitrary: w)
  case Nil
  then show ?case using assms by (simp add: asset_attempts_nil)
next
  case (Cons attempt attempts)
  show ?case
  proof (cases "failed (requests_get e (length (net_log w)) product (Some a))")
    case True
    then show ?thesis by (simp add: asset_attempts_failed Cons.IH)
  next
    case False
    then obtain b where r: "requests_get e (length (net_log w)) product (Some a) = Response 200 b"
      and nb: "b \<noteq> JSONDecodeError"
      by (cases "requests_get e (length (net_log w)) product (Some a)") auto
    have "\<forall>h \<in> set (fst (snd (asset_rows e a product rows positions w'))).
        source h = ''Simple Earn''" for rows w'
      by (rule asset_rows_source) (rule assms)
    then show ?thesis
      using assms nb
      by (auto simp add: asset_attempts_answered [OF r] split: body.splits)
  qed
qed

lemma get_all_source:
  "\<forall>h \<in> set (fst (get_all_simple_earn_positions e w)). source h = ''Simple Earn''"
proof -
  let ?r1 = "bulk_attempts e FLEXIBLE (range_py 3) [] w"
  have 1: "\<forall>h \<in> set (fst (snd ?r1)). source h = ''Simple Earn''"
    by (rule bulk_attempts_source) simp
  have 2: "\<forall>h \<in> set (fst (snd (bulk_attempts e LOCKED (range_py 3) (fst (snd ?r1)) (snd (snd ?r1))))).
      source h = ''Simple Earn''"
    by (rule bulk_attempts_source) (rule 1)
  show ?thesis
    using 2 by (simp add: get_all_simple_earn_positions_def split_beta)
qed

lemma get_asset_source:
  "\<forall>h \<in> set (fst (get_simple_earn_asset_positions e w a)). source h = ''Simple Earn''"
proof -
  let ?r1 = "asset_attempts e a FLEXIBLE (range_py 2) [] w"
  have 1: "\<forall>h \<in> set (fst (snd ?r1)). source h = ''Simple Earn''"
    by (rule asset_attempts_source) simp
  have 2: "\<forall>h \<in> set (fst (snd (asset_attempts e a LOCKED (range_py 2) (fst (snd ?r1)) (snd (snd ?r1))))).
      source h = ''Simple Earn''"
    by (rule asset_attempts_source) (rule 1)
  show ?thesis
    using 2 by (simp add: get_simple_earn_asset_positions_def split_beta)
qed

lemma specific_loop_source:
  assumes "\<forall>h \<in> set earn_data. source h = ''Simple Earn''"
  shows "\<forall>h \<in> set (fst (specific_loop e missing earn_data w)). source h = ''Simple Earn''"
  using assms
proof (induction missing arbitrary: earn_data w)
  case Nil
  then show ?case by simp
next
  case (Cons a missing)
  let ?r = "get_simple_earn_asset_positions e w a"
  have ext: "\<forall>h \<in> set (earn_data @ fst ?r). source h = ''Simple Earn''"
    using Cons.prems get_asset_source [of e w a] by auto
  show ?case
    using Cons.IH [OF Cons.prems] Cons.IH [OF ext]
    by (simp add: split_beta)
qed

lemma collect_earn_data_eq:
  "collect_earn_data e w =
     specific_loop e
       (filter (\<lambda>a. a \<notin> set (map asset (fst (get_all_simple_earn_positions e w)))) known_assets)
       (fst (get_all_simple_earn_positions e w)) (snd (get_all_simple_earn_positions e w))"
  by (cases "fst (get_all_simple_earn_positions e w) = []")
    (simp_all add: collect_earn_data_def split_beta)

lemma get_earn_data_source:
  "\<forall>h \<in> set (fst (get_earn_data e w)). source h = ''Simple Earn''"
proof -
  have c: "\<forall>h \<in> set (fst (collect_earn_data e w)). source h = ''Simple Earn''"
    unfolding collect_earn_data_eq by (rule specific_loop_source) (rule get_all_source)
  have "set (fst (get_earn_data e w)) \<subseteq> set (fst (collect_earn_data e w))"
    using set_dedup_first by (simp add: get_earn_data_def split_beta unique_loop_dedup_first)
  with c show ?thesis by blast
qed

lemma get_earn_data_distinct: "distinct (map asset (fst (get_earn_data e w)))"
  by (simp add: get_earn_data_def split_beta unique_loop_dedup_first distinct_dedup_first)

lemma distinct_map_pair:
  "distinct (map f xs) \<Longrightarrow> distinct (map (\<lambda>x. (f x, g x)) xs)"
  by (induction xs) auto

lemma distinct_map_sort_reverse:
  "distinct (map f (sort_reverse key xs)) = distinct (map f xs)"
proof -
  have "mset (map f (sort_reverse key xs)) = mset (map f xs)"
    by (simp add: mset_sort_reverse)
  then show ?thesis by (rule mset_eq_imp_distinct_iff)
qed

lemma filter_sort_reverse:
  "filter P (sort_reverse key xs) = sort_reverse key (filter P xs)"
  by (simp add: sort_reverse_def rev_filter [symmetric] filter_sort)

text \<open>
  Claim C1, as amended. In the list \<open>get_portfolio_data\<close> returns, no two entries
  from the Simple Earn silo have the same asset symbol; and when the exchange's
  balance listing names each asset once, no two entries have both the same asset
  symbol and the same source. An asset held in both silos may appear once per
  silo.
\<close>

theorem portfolio_unique_per_silo:
  assumes "fst (get_portfolio_data e w) = Inr portfolio"
  shows "distinct (map asset (filter (\<lambda>h. source h = ''Simple Earn'') portfolio))
    \<and> ((\<forall>balances. get_account e (length (net_log w)) = Some balances
            \<longrightarrow> distinct (map bal_asset balances))
        \<longrightarrow> distinct (map (\<lambda>h. (asset h, source h)) portfolio))"
proof (intro conjI impI)
  let ?spot = "fst (get_spot_data e w)"
  let ?earn = "fst (get_earn_data e (snd (get_spot_data e w)))"
  let ?SE = "\<lambda>h. source h = ''Simple Earn''"
  have p: "portfolio = sort_reverse current_value (filtered_data (?spot @ ?earn))"
    using assms by (simp add: get_portfolio_data_eq)
  have s: "\<forall>h \<in> set ?spot. source h = ''Spot''" by (rule get_spot_data_source)
  have n: "\<forall>h \<in> set ?earn. source h = ''Simple Earn''" by (rule get_earn_data_source)
  have d: "distinct (map asset ?earn)" by (rule get_earn_data_distinct)
  have "filter ?SE ?spot = []"
    using s by (auto simp add: filter_empty_conv)
  then have "filter ?SE (filtered_data (?spot @ ?earn))
      = filter ?SE (filtered_data ?earn)"
    by (simp add: filtered_data_def filter_empty_conv)
  then have "filter ?SE portfolio = sort_reverse current_value (filter ?SE (filtered_data ?earn))"
    by (simp add: p filter_sort_reverse)
  moreover have "distinct (map asset (filter ?SE (filtered_data ?earn)))"
    using d by (simp add: filtered_data_def distinct_map_filter)
  ultimately show "distinct (map asset (filter ?SE portfolio))"
    by (simp add: distinct_map_sort_reverse)
  assume "\<forall>balances. get_account e (length (net_log w)) = Some balances
            \<longrightarrow> distinct (map bal_asset balances)"
  then have ds: "distinct (map asset ?spot)" by (rule get_spot_data_distinct)
  let ?k = "\<lambda>h. (asset h, source h)"
  have "distinct (map ?k (?spot @ ?earn))"
    using distinct_map_pair [OF ds, of source] distinct_map_pair [OF d, of source] s n
    by auto
  then have "distinct (map ?k (filtered_data (?spot @ ?earn)))"
    unfolding filtered_data_def by (intro distinct_map_filter)
  then show "distinct (map ?k portfolio)"
    by (simp add: p distinct_map_sort_reverse)
qed

subsection \<open>Witnesses\<close>

theorem earn_data_reconciled_witness:
  "unique_loop ([position ''BTC'' 1, position ''ETH'' 2] @ [position ''ETH'' 5, position ''SOL'' 3])
      [] {}
     = [position ''BTC'' 1, position ''ETH'' 2, position ''SOL'' 3]
   \<and> reconcile_spec [position ''BTC'' 1, position ''ETH'' 2] [position ''ETH'' 5, position ''SOL'' 3]
     = [position ''BTC'' 1, position ''ETH'' 2, position ''SOL'' 3]
   \<and> position ''SOL'' 3
       \<in> set (reconcile_spec [position ''BTC'' 1, position ''ETH'' 2]
                [position ''ETH'' 5, position ''SOL'' 3])
   \<and> position ''SOL'' 3 \<notin> set [position ''BTC'' 1, position ''ETH'' 2]
   \<and> position ''SOL'' 3 \<in> set [position ''ETH'' 5, position ''SOL'' 3]
   \<and> asset (position ''SOL'' 3) \<notin> asset ` set [position ''BTC'' 1, position ''ETH'' 2]
   \<and> fst (get_earn_data full_env world1)
     = reconcile_spec (strategy_A full_env world1) (strategy_B full_env world1)
   \<and> fst (get_earn_data full_env world1)
     = [earn_holding ''BTC'' 2 50000 FLEXIBLE 1, earn_holding ''ETH'' 1 3000 FLEXIBLE 0,
        earn_holding ''SOL'' 30 100 FLEXIBLE 0]"
proof -
  let ?A = "[position ''BTC'' 1, position ''ETH'' 2]"
  let ?B = "[position ''ETH'' 5, position ''SOL'' 3]"
  note t = earn_data_reconciled [of full_env world1 ?A ?B]
  have r: "reconcile_spec ?A ?B = [position ''BTC'' 1, position ''ETH'' 2, position ''SOL'' 3]"
    using t example_merge by simp
  have m: "position ''SOL'' 3 \<in> set (reconcile_spec ?A ?B)"
    by (simp add: r)
  have n: "position ''SOL'' 3 \<notin> set ?A"
    by (simp add: position_def earn_holding_def)
  from t have "\<forall>x \<in> set (reconcile_spec ?A ?B).
      x \<in> set ?A \<or> (x \<in> set ?B \<and> asset x \<notin> asset ` set ?A)"
    by blast
  with m n have b: "position ''SOL'' 3 \<in> set ?B
      \<and> asset (position ''SOL'' 3) \<notin> asset ` set ?A"
    by blast
  have g: "fst (get_earn_data full_env world1)
     = reconcile_spec (strategy_A full_env world1) (strategy_B full_env world1)"
    using t by blast
  show ?thesis
    using example_merge r m n b g full_env_earn by blast
qed

lemma full_env_portfolio': "fst (get_portfolio_data full_env initial_world) = Inr full_portfolio"
  by (simp add: full_env_portfolio full_portfolio_def)

theorem portfolio_sorted_descending_stable_witness:
  "fst (get_portfolio_data full_env initial_world) = Inr full_portfolio
   \<and> Suc 2 < length full_portfolio
   \<and> current_value (full_portfolio ! Suc 2) \<le> current_value (full_portfolio ! 2)
   \<and> current_value (full_portfolio ! 2) = 3000
   \<and> filter (\<lambda>h. current_value h = 3000) full_portfolio
       = filter (\<lambda>h. current_value h = 3000)
           (filtered_data (fst (get_spot_data full_env initial_world)
              @ fst (get_earn_data full_env (snd (get_spot_data full_env initial_world)))))
   \<and> filter (\<lambda>h. current_value h = 3000) full_portfolio
       = [earn_holding ''ETH'' 1 3000 FLEXIBLE 0, earn_holding ''SOL'' 30 100 FLEXIBLE 0]"
proof -
  note t = portfolio_sorted_descending_stable [OF full_env_portfolio']
  have l: "Suc 2 < length full_portfolio" by (simp add: full_portfolio_def)
  from t l have o: "current_value (full_portfolio ! Suc 2) \<le> current_value (full_portfolio ! 2)"
    by blast
  from t have s: "filter (\<lambda>h. current_value h = 3000) full_portfolio
       = filter (\<lambda>h. current_value h = 3000)
           (filtered_data (fst (get_spot_data full_env initial_world)
              @ fst (get_earn_data full_env (snd (get_spot_data full_env initial_world)))))"
    by blast
  have v: "current_value (full_portfolio ! 2) = 3000"
    by (simp add: full_portfolio_def earn_holding_def)
  have f: "filter (\<lambda>h. current_value h = 3000) full_portfolio
       = [earn_holding ''ETH'' 1 3000 FLEXIBLE 0, earn_holding ''SOL'' 30 100 FLEXIBLE 0]"
    by (simp add: full_portfolio_def earn_holding_def spot_holding_def)
  show ?thesis
    by (intro conjI full_env_portfolio' l o s v f)
qed

text \<open>
  The claim C1 as stated fails: in \<open>full_env\<close> BTC is held in the spot wallet and in
  a flexible product, and the returned list has both entries.
\<close>

theorem portfolio_duplicate_across_silos:
  "fst (get_portfolio_data full_env initial_world) = Inr full_portfolio
   \<and> asset (full_portfolio ! 0) = ''BTC'' \<and> source (full_portfolio ! 0) = ''Simple Earn''
   \<and> asset (full_portfolio ! 1) = ''BTC'' \<and> source (full_portfolio ! 1) = ''Spot''
   \<and> \<not> distinct (map asset full_portfolio)"
  by (simp add: full_env_portfolio')
    (simp add: full_portfolio_def earn_holding_def spot_holding_def)

theorem portfolio_unique_per_silo_witness:
  "fst (get_portfolio_data full_env initial_world) = Inr full_portfolio
   \<and> get_account full_env (length (net_log initial_world))
       = Some [ldo_balance, xyz_balance, btc_balance]
   \<and> distinct (map bal_asset [ldo_balance, xyz_balance, btc_balance])
   \<and> distinct (map asset (filter (\<lambda>h. source h = ''Simple Earn'') full_portfolio))
   \<and> distinct (map (\<lambda>h. (asset h, source h)) full_portfolio)"
proof -
  note t = portfolio_unique_per_silo [OF full_env_portfolio']
  have a: "get_account full_env (length (net_log initial_world))
       = Some [ldo_balance, xyz_balance, btc_balance]"
    by (simp add: full_env_sel)
  have d: "distinct (map bal_asset [ldo_balance, xyz_balance, btc_balance])"
    by (simp add: ldo_balance_def xyz_balance_def btc_balance_def)
  have h: "\<forall>balances. get_account full_env (length (net_log initial_world)) = Some balances
            \<longrightarrow> distinct (map bal_asset balances)"
    using a d by simp
  from t have 1: "distinct (map asset (filter (\<lambda>h. source h = ''Simple Earn'') full_portfolio))"
    by (rule conjunct1)
  from t h have 2: "distinct (map (\<lambda>h. (asset h, source h)) full_portfolio)"
    by blast
  show ?thesis
    by (intro conjI full_env_portfolio' a d 1 2)
qed

lemma dead_env_failed: "failed (requests_get dead_env n product a)"
  by (simp add: dead_env_def unreachable_def)

lemma dead_env_spot: "spot_fetch_raises dead_env initial_world"
  by (simp add: spot_fetch_raises_def call_get_account_def dead_env_def)

text \<open>
  The claim C2 as stated fails: in \<open>dead_env\<close> the account call raises and every
  position request raises, and \<open>get_portfolio_data\<close> returns the empty list.
\<close>

theorem total_failure_no_error_raised:
  "get_account dead_env (length (net_log initial_world)) = None
   \<and> requests_get dead_env = unreachable
   \<and> spot_fetch_raises dead_env initial_world
   \<and> fst (get_portfolio_data dead_env initial_world) = Inr []"
proof -
  have "fst (get_portfolio_data dead_env initial_world) = Inr []"
    by (rule total_failure_empty) (rule dead_env_spot dead_env_failed)+
  then show ?thesis
    by (simp add: dead_env_spot) (simp add: dead_env_def)
qed

theorem total_failure_returns_empty_list_witness:
  "spot_fetch_raises dead_env initial_world
   \<and> (\<forall>n product a. failed (requests_get dead_env n product a))
   \<and> fst (get_portfolio_data dead_env initial_world) = Inr []"
proof -
  have f: "\<forall>n product a. failed (requests_get dead_env n product a)"
    by (simp add: dead_env_failed)
  have "fst (get_portfolio_data dead_env initial_world) = Inr []"
    using total_failure_returns_empty_list [of dead_env initial_world] dead_env_spot f by blast
  then show ?thesis using dead_env_spot f by blast
qed

end
